theory Spec2Isabelle
  imports Complex_Main
begin

section \<open>JavaScript values and the runtime the application relies on\<close>

text \<open>
  The application is a single React component (\<^verbatim>\<open>App\<close>). Its two parts are the
  function \<^verbatim>\<open>fetchOptionsFromAI\<close>, which asks a text-generation service for two options,
  and the handlers \<^verbatim>\<open>handleGenerateNew\<close>, \<^verbatim>\<open>handlePrevious\<close> and the \<^verbatim>\<open>useEffect\<close> hook that
  keep the displayed pair and the history of earlier pairs.

  Values that come back from the service are untyped JavaScript values. Numbers obtained
  from JSON text are modelled by their (finite) rational value, and an object by the list
  of its own properties, each name once.
\<close>

datatype jsval =
    Undefined
  | Null
  | Boolean bool
  | Number rat
  | String string
  | Array "jsval list"
  | Object "(string \<times> jsval) list"

datatype js_error =
    Error string
  | TypeError string
  | SyntaxError string

fun message :: "js_error \<Rightarrow> string" where
  "message (Error m) = m"
| "message (TypeError m) = m"
| "message (SyntaxError m) = m"

text \<open>
  Library functions and engine behaviour that the source calls but does not define are
  parameters of the model: \<^verbatim>\<open>JSON.parse\<close> (with the conversion of its argument to text),
  \<^verbatim>\<open>JSON.stringify\<close>, the text of a number inside a template literal, the numeric
  conversion of a string, array or object operand of \<^verbatim>\<open>></\<close>, and the wording of the
  \<^verbatim>\<open>TypeError\<close> raised when a property of \<^verbatim>\<open>undefined\<close> or \<^verbatim>\<open>null\<close> is read.
\<close>

record runtime =
  JSON_parse :: "jsval \<Rightarrow> js_error + jsval"
  JSON_stringify :: "jsval \<Rightarrow> string"
  number_text :: "nat \<Rightarrow> string"
  ToNumber_gt0 :: "jsval \<Rightarrow> bool"
  TypeError_text :: "jsval \<Rightarrow> string \<Rightarrow> string"

fun truthy :: "jsval \<Rightarrow> bool" where
  "truthy Undefined = False"
| "truthy Null = False"
| "truthy (Boolean b) = b"
| "truthy (Number n) = (n \<noteq> 0)"
| "truthy (String s) = (s \<noteq> [])"
| "truthy (Array xs) = True"
| "truthy (Object kvs) = True"

fun typeof :: "jsval \<Rightarrow> string" where
  "typeof Undefined = ''undefined''"
| "typeof Null = ''object''"
| "typeof (Boolean b) = ''boolean''"
| "typeof (Number n) = ''number''"
| "typeof (String s) = ''string''"
| "typeof (Array xs) = ''object''"
| "typeof (Object kvs) = ''object''"

fun isArray :: "jsval \<Rightarrow> bool" where
  "isArray (Array xs) = True"
| "isArray v = False"

text \<open>\<^verbatim>\<open>xs[i]\<close> on an array: the element, or \<^verbatim>\<open>undefined\<close> past the end.\<close>

definition element :: "jsval list \<Rightarrow> nat \<Rightarrow> jsval" where
  "element xs i = (if i < length xs then xs ! i else Undefined)"

text \<open>
  \<^verbatim>\<open>v.name\<close> for one of the names \<^verbatim>\<open>candidates\<close>, \<^verbatim>\<open>content\<close>, \<^verbatim>\<open>parts\<close>, \<^verbatim>\<open>text\<close>: reading a
  property of \<^verbatim>\<open>undefined\<close> or \<^verbatim>\<open>null\<close> throws, an object gives the stored value, and
  every other value has no such property.
\<close>

fun member :: "runtime \<Rightarrow> jsval \<Rightarrow> string \<Rightarrow> js_error + jsval" where
  "member rt Undefined k = Inl (TypeError (TypeError_text rt Undefined k))"
| "member rt Null k = Inl (TypeError (TypeError_text rt Null k))"
| "member rt (Object kvs) k = Inr (case map_of kvs k of None \<Rightarrow> Undefined | Some v \<Rightarrow> v)"
| "member rt v k = Inr Undefined"

text \<open>\<^verbatim>\<open>v.length\<close>.\<close>

fun length_of :: "runtime \<Rightarrow> jsval \<Rightarrow> js_error + jsval" where
  "length_of rt (Array xs) = Inr (Number (of_nat (length xs)))"
| "length_of rt (String s) = Inr (Number (of_nat (length s)))"
| "length_of rt v = member rt v ''length''"

text \<open>\<^verbatim>\<open>v[0]\<close>.\<close>

fun index0 :: "runtime \<Rightarrow> jsval \<Rightarrow> js_error + jsval" where
  "index0 rt (Array xs) = Inr (element xs 0)"
| "index0 rt (String s) = Inr (case s of [] \<Rightarrow> Undefined | c # cs \<Rightarrow> String [c])"
| "index0 rt v = member rt v ''0''"

text \<open>\<^verbatim>\<open>v > 0\<close>: \<^verbatim>\<open>undefined\<close> converts to NaN and \<^verbatim>\<open>null\<close> to 0.\<close>

fun gt0 :: "runtime \<Rightarrow> jsval \<Rightarrow> bool" where
  "gt0 rt Undefined = False"
| "gt0 rt Null = False"
| "gt0 rt (Boolean b) = b"
| "gt0 rt (Number n) = (0 < n)"
| "gt0 rt v = ToNumber_gt0 rt v"

section \<open>The generation client: \<^verbatim>\<open>fetchOptionsFromAI\<close>\<close>

record request =
  url :: string
  http_method :: string
  prompt_category :: string

text \<open>
  A response as the function uses it: \<^verbatim>\<open>response.ok\<close>, \<^verbatim>\<open>response.status\<close> and the outcome
  of \<^verbatim>\<open>await response.json()\<close>, which rejects when the body is not JSON.
\<close>

record response =
  ok :: bool
  status :: nat
  json :: "js_error + jsval"

datatype fetch_outcome =
    Rejected js_error
  | Resolved response

definition apiUrl :: "string \<Rightarrow> string" where
  "apiUrl k =
     ''https://generativelanguage.googleapis.com/v1beta/models/gemini-2.0-flash:generateContent?key='' @ k"

definition missing_key_message :: string where
  "missing_key_message =
     ''GEMINI_API_KEY is not configured. Please set REACT_APP_GEMINI_API_KEY in Netlify environment variables.''"

definition unexpected_format_message :: string where
  "unexpected_format_message =
     ''AI response format was unexpected. Expected an array of two strings.''"

definition empty_or_malformed_message :: string where
  "empty_or_malformed_message =
     ''Failed to generate options from AI. Response was empty or malformed.''"

definition http_error_message :: "runtime \<Rightarrow> nat \<Rightarrow> jsval \<Rightarrow> string" where
  "http_error_message rt st errorData =
     ''HTTP error! Status: '' @ number_text rt st @ ''. Details: '' @ JSON_stringify rt errorData"

text \<open>
  The condition of the outer \<^verbatim>\<open>if\<close>: a chain of \<^verbatim>\<open>&&\<close>, left to right, that stops at the
  first falsy operand and throws where a property of \<^verbatim>\<open>undefined\<close> or \<^verbatim>\<open>null\<close> is read.
\<close>

definition candidate0_content :: "runtime \<Rightarrow> jsval \<Rightarrow> js_error + jsval" where
  "candidate0_content rt result =
     (case member rt result ''candidates'' of Inl e \<Rightarrow> Inl e | Inr cands \<Rightarrow>
      case index0 rt cands of Inl e \<Rightarrow> Inl e | Inr c0 \<Rightarrow>
      member rt c0 ''content'')"

definition content_parts :: "runtime \<Rightarrow> jsval \<Rightarrow> js_error + jsval" where
  "content_parts rt result =
     (case candidate0_content rt result of Inl e \<Rightarrow> Inl e | Inr content \<Rightarrow>
      member rt content ''parts'')"

definition envelope_ok :: "runtime \<Rightarrow> jsval \<Rightarrow> js_error + bool" where
  "envelope_ok rt result =
     (case member rt result ''candidates'' of Inl e \<Rightarrow> Inl e | Inr cands \<Rightarrow>
      if \<not> truthy cands then Inr False else
      case length_of rt cands of Inl e \<Rightarrow> Inl e | Inr n \<Rightarrow>
      if \<not> gt0 rt n then Inr False else
      case candidate0_content rt result of Inl e \<Rightarrow> Inl e | Inr content \<Rightarrow>
      if \<not> truthy content then Inr False else
      case content_parts rt result of Inl e \<Rightarrow> Inl e | Inr parts \<Rightarrow>
      if \<not> truthy parts then Inr False else
      case length_of rt parts of Inl e \<Rightarrow> Inl e | Inr m \<Rightarrow>
      Inr (gt0 rt m))"

text \<open>\<^verbatim>\<open>result.candidates[0].content.parts[0].text\<close>.\<close>

definition jsonString_of :: "runtime \<Rightarrow> jsval \<Rightarrow> js_error + jsval" where
  "jsonString_of rt result =
     (case content_parts rt result of Inl e \<Rightarrow> Inl e | Inr parts \<Rightarrow>
      case index0 rt parts of Inl e \<Rightarrow> Inl e | Inr p0 \<Rightarrow>
      member rt p0 ''text'')"

text \<open>
  \<^verbatim>\<open>Array.isArray(options) && options.length === 2 && typeof options[0] === 'string'
  && typeof options[1] === 'string'\<close>.
\<close>

fun array_elements :: "jsval \<Rightarrow> jsval list" where
  "array_elements (Array xs) = xs"
| "array_elements v = []"

definition options_valid :: "jsval \<Rightarrow> bool" where
  "options_valid options =
     (isArray options \<and> length (array_elements options) = 2
      \<and> typeof (element (array_elements options) 0) = ''string''
      \<and> typeof (element (array_elements options) 1) = ''string'')"

text \<open>The statements after \<^verbatim>\<open>const result = await response.json()\<close>.\<close>

definition decode_result :: "runtime \<Rightarrow> jsval \<Rightarrow> js_error + jsval list" where
  "decode_result rt result =
     (case envelope_ok rt result of
        Inl e \<Rightarrow> Inl e
      | Inr False \<Rightarrow> Inl (Error empty_or_malformed_message)
      | Inr True \<Rightarrow>
          (case jsonString_of rt result of Inl e \<Rightarrow> Inl e | Inr jsonString \<Rightarrow>
           case JSON_parse rt jsonString of Inl e \<Rightarrow> Inl e | Inr options \<Rightarrow>
           if options_valid options then Inr (array_elements options)
           else Inl (Error unexpected_format_message)))"

text \<open>The statements after \<^verbatim>\<open>const response = await fetch(...)\<close>.\<close>

definition handle_response :: "runtime \<Rightarrow> response \<Rightarrow> js_error + jsval list" where
  "handle_response rt resp =
     (if \<not> ok resp then
        (case json resp of
           Inl e \<Rightarrow> Inl e
         | Inr errorData \<Rightarrow> Inl (Error (http_error_message rt (status resp) errorData)))
      else
        (case json resp of
           Inl e \<Rightarrow> Inl e
         | Inr result \<Rightarrow> decode_result rt result))"

text \<open>
  The body of the \<^verbatim>\<open>try\<close> block, with the requests it sent: a thrown error is \<open>Inl\<close>, the
  returned array is \<open>Inr\<close>. \<^verbatim>\<open>process.env.REACT_APP_GEMINI_API_KEY\<close> is a string or
  \<^verbatim>\<open>undefined\<close>, and \<^verbatim>\<open>!apiKey\<close> holds for \<^verbatim>\<open>undefined\<close> and for the empty string.
\<close>

definition send_request ::
  "runtime \<Rightarrow> (request \<Rightarrow> fetch_outcome) \<Rightarrow> request
     \<Rightarrow> (js_error + jsval list) \<times> request list" where
  "send_request rt fetch req =
     (case fetch req of
        Rejected e \<Rightarrow> Inl e
      | Resolved resp \<Rightarrow> handle_response rt resp,
      [req])"

definition try_block ::
  "runtime \<Rightarrow> string option \<Rightarrow> (request \<Rightarrow> fetch_outcome) \<Rightarrow> string
     \<Rightarrow> (js_error + jsval list) \<times> request list" where
  "try_block rt apiKey fetch category =
     (case apiKey of
        None \<Rightarrow> (Inl (Error missing_key_message), [])
      | Some k \<Rightarrow>
          if k = [] then (Inl (Error missing_key_message), [])
          else send_request rt fetch
                 \<lparr>url = apiUrl k, http_method = ''POST'', prompt_category = category\<rparr>)"

text \<open>
  What a call leaves behind once its promise settles: the array it resolves to, the
  message the \<^verbatim>\<open>catch\<close> handler passed to \<^verbatim>\<open>setError\<close> (if it ran), and the requests sent.
  The \<^verbatim>\<open>setError('')\<close> of its first line runs when the call starts and is part of
  \<open>handleGenerateNew_call\<close> below.
\<close>

record client_result =
  returned :: "jsval list"
  caught :: "string option"
  requests :: "request list"

definition failure_text :: "js_error \<Rightarrow> string" where
  "failure_text err =
     ''Failed to fetch options: '' @ message err
       @ ''. Please check your network or API key configuration.''"

definition fetchOptionsFromAI ::
  "runtime \<Rightarrow> string option \<Rightarrow> (request \<Rightarrow> fetch_outcome) \<Rightarrow> string \<Rightarrow> client_result" where
  "fetchOptionsFromAI rt apiKey fetch category =
     (case try_block rt apiKey fetch category of
        (Inl err, reqs) \<Rightarrow>
          \<lparr>returned = [String [], String []], caught = Some (failure_text err), requests = reqs\<rparr>
      | (Inr options, reqs) \<Rightarrow>
          \<lparr>returned = options, caught = None, requests = reqs\<rparr>)"

section \<open>The session state and its handlers\<close>

definition categories :: "string list" where
  "categories =
     [''Everyday Life'', ''Superpowers'', ''Travel & Adventure'', ''Food & Drink'',
      ''Past or Future'', ''Silly Scenarios'', ''Animals'', ''Personal Quirks'',
      ''Relationships'']"

text \<open>An entry of \<^verbatim>\<open>history\<close>: \<^verbatim>\<open>{ category, optionA, optionB }\<close>.\<close>

record question =
  category :: string
  question_optionA :: jsval
  question_optionB :: jsval

text \<open>The seven \<^verbatim>\<open>useState\<close> cells of the component.\<close>

record session =
  selectedCategory :: string
  optionA :: jsval
  optionB :: jsval
  isLoading :: bool
  error :: string
  history :: "question list"
  historyIndex :: int

definition initial_session :: session where
  "initial_session =
     \<lparr>selectedCategory = ''Everyday Life'', optionA = String [], optionB = String [],
      isLoading = False, error = [], history = [], historyIndex = - 1\<rparr>"

text \<open>
  A call of \<^verbatim>\<open>handleGenerateNew\<close> that waits for the service. The callback closes over
  \<^verbatim>\<open>selectedCategory\<close> and \<^verbatim>\<open>historyIndex\<close> of the render that created it, and keeps its
  argument; the parameter is declared \<^verbatim>\<open>initialLoad = false\<close>, so only \<^verbatim>\<open>undefined\<close> is
  replaced by \<^verbatim>\<open>false\<close>.
\<close>

record pending =
  captured_selectedCategory :: string
  captured_historyIndex :: int
  initialLoad :: jsval

definition default_false :: "jsval \<Rightarrow> jsval" where
  "default_false arg = (if arg = Undefined then Boolean False else arg)"

text \<open>
  Up to the first suspension: \<^verbatim>\<open>setIsLoading(true)\<close>, then the call of
  \<^verbatim>\<open>fetchOptionsFromAI(selectedCategory)\<close>, whose first statement is \<^verbatim>\<open>setError('')\<close>.
\<close>

definition handleGenerateNew_call :: "session \<Rightarrow> jsval \<Rightarrow> session \<times> pending" where
  "handleGenerateNew_call s arg =
     (s\<lparr>isLoading := True, error := []\<rparr>,
      \<lparr>captured_selectedCategory = selectedCategory s,
       captured_historyIndex = historyIndex s,
       initialLoad = default_false arg\<rparr>)"

text \<open>\<^verbatim>\<open>xs.slice(0, end)\<close>: a negative \<^verbatim>\<open>end\<close> counts from the end of the array.\<close>

definition slice0 :: "'a list \<Rightarrow> int \<Rightarrow> 'a list" where
  "slice0 xs e = (if e < 0 then take (nat (int (length xs) + e)) xs else take (nat e) xs)"

text \<open>
  After the service has answered: the \<^verbatim>\<open>catch\<close> handler's \<^verbatim>\<open>setError\<close> (if it ran), then the
  rest of \<^verbatim>\<open>handleGenerateNew\<close>. The updater functions given to \<^verbatim>\<open>setHistory\<close> and
  \<^verbatim>\<open>setHistoryIndex\<close> receive the state of that moment, while \<^verbatim>\<open>historyIndex\<close> inside
  \<^verbatim>\<open>slice\<close> and \<^verbatim>\<open>selectedCategory\<close> are the captured ones.
\<close>

definition handleGenerateNew_resume :: "client_result \<Rightarrow> pending \<Rightarrow> session \<Rightarrow> session" where
  "handleGenerateNew_resume r p s =
     (let s1 = (case caught r of None \<Rightarrow> s | Some m \<Rightarrow> s\<lparr>error := m\<rparr>);
          newOptionA = element (returned r) 0;
          newOptionB = element (returned r) 1;
          s2 = (if truthy newOptionA \<or> truthy newOptionB then
                  let newHistoryItem =
                        \<lparr>category = captured_selectedCategory p,
                         question_optionA = newOptionA, question_optionB = newOptionB\<rparr>;
                      updatedHistory =
                        (if truthy (initialLoad p) then []
                         else slice0 (history s1) (captured_historyIndex p + 1))
                  in s1\<lparr>history := updatedHistory @ [newHistoryItem],
                        historyIndex := (if truthy (initialLoad p) then 0
                                         else historyIndex s1 + 1)\<rparr>
                else s1\<lparr>optionA := String [], optionB := String []\<rparr>)
      in s2\<lparr>optionA := newOptionA, optionB := newOptionB, isLoading := False\<rparr>)"

text \<open>\<^verbatim>\<open>history[i]\<close> for an integer \<^verbatim>\<open>i\<close>: \<^verbatim>\<open>undefined\<close> (here \<open>None\<close>) outside the array.\<close>

definition history_at :: "question list \<Rightarrow> int \<Rightarrow> question option" where
  "history_at h i = (if 0 \<le> i \<and> i < int (length h) then Some (h ! nat i) else None)"

text \<open>
  \<^verbatim>\<open>handlePrevious\<close>. Reading \<^verbatim>\<open>prevQuestion.optionA\<close> of an absent entry throws before any
  state is set; nothing catches it, and the result is \<open>None\<close>.
\<close>

definition handlePrevious :: "session \<Rightarrow> session option" where
  "handlePrevious s =
     (if historyIndex s > 0 then
        let newIndex = historyIndex s - 1 in
        (case history_at (history s) newIndex of
           None \<Rightarrow> None
         | Some prevQuestion \<Rightarrow>
             Some (s\<lparr>optionA := question_optionA prevQuestion,
                     optionB := question_optionB prevQuestion,
                     selectedCategory := category prevQuestion,
                     historyIndex := newIndex\<rparr>))
      else Some s)"

text \<open>
  The body of the \<^verbatim>\<open>useEffect\<close> hook: \<open>Some arg\<close> when it calls \<^verbatim>\<open>handleGenerateNew(arg)\<close>.
\<close>

definition regeneration_effect :: "session \<Rightarrow> jsval option" where
  "regeneration_effect s =
     (case history_at (history s) (historyIndex s) of
        None \<Rightarrow> Some (Boolean (historyIndex s = - 1))
      | Some currentQuestion \<Rightarrow>
          if category currentQuestion \<noteq> selectedCategory s
          then Some (Boolean (historyIndex s = - 1))
          else None)"

section \<open>The component as a transition system\<close>

text \<open>
  The component together with the calls of \<^verbatim>\<open>handleGenerateNew\<close> that still wait for
  the service, oldest first.
\<close>

record app =
  state :: session
  in_flight :: "pending list"

text \<open>
  React runs the effect after a render in which one of its dependencies
  \<^verbatim>\<open>[selectedCategory, handleGenerateNew, history, historyIndex]\<close> changed.
\<close>

definition run_effect :: "app \<Rightarrow> app" where
  "run_effect a =
     (case regeneration_effect (state a) of
        None \<Rightarrow> a
      | Some arg \<Rightarrow>
          (case handleGenerateNew_call (state a) arg of
             (s1, p) \<Rightarrow> \<lparr>state = s1, in_flight = in_flight a @ [p]\<rparr>))"

text \<open>The object React passes to an \<^verbatim>\<open>onClick\<close> handler.\<close>

definition click_event :: jsval where
  "click_event = Object [(''type'', String ''click'')]"

datatype event =
    SelectCategory string
  | ClickNext
  | ClickPrevious
  | Settle nat fetch_outcome

text \<open>
  \<^item> A category button calls \<^verbatim>\<open>setSelectedCategory(category)\<close>; it is never disabled.
    Setting the value the state already has causes no render and no effect.
  \<^item> The ``Next Question'' button has \<^verbatim>\<open>onClick={handleGenerateNew}\<close> and is disabled
    while \<^verbatim>\<open>isLoading\<close>; the handler receives the click event as its argument.
  \<^item> The ``Previous Question'' button has \<^verbatim>\<open>onClick={handlePrevious}\<close> and is disabled
    while \<^verbatim>\<open>isLoading || historyIndex <= 0\<close>.
  \<^item> \<open>Settle n out\<close>: the \<open>n\<close>-th waiting call gets \<open>out\<close> from \<^verbatim>\<open>fetch\<close> and runs to its
    end. Only a successful call changes a dependency of the effect.
\<close>

text \<open>A network that gives every request the same outcome.\<close>

definition always :: "fetch_outcome \<Rightarrow> request \<Rightarrow> fetch_outcome" where
  "always out req = out"

definition settle :: "runtime \<Rightarrow> string option \<Rightarrow> app \<Rightarrow> nat \<Rightarrow> fetch_outcome \<Rightarrow> app" where
  "settle rt apiKey a n out =
     (if n < length (in_flight a) then
        let p = in_flight a ! n;
            r = fetchOptionsFromAI rt apiKey (always out) (captured_selectedCategory p);
            a' = \<lparr>state = handleGenerateNew_resume r p (state a),
                  in_flight = take n (in_flight a) @ drop (Suc n) (in_flight a)\<rparr>
        in if truthy (element (returned r) 0) \<or> truthy (element (returned r) 1)
           then run_effect a' else a'
      else a)"

fun step :: "runtime \<Rightarrow> string option \<Rightarrow> app \<Rightarrow> event \<Rightarrow> app" where
  "step rt apiKey a (SelectCategory c) =
     (if c \<in> set categories \<and> c \<noteq> selectedCategory (state a)
      then run_effect (a\<lparr>state := (state a)\<lparr>selectedCategory := c\<rparr>\<rparr>)
      else a)"
| "step rt apiKey a ClickNext =
     (if isLoading (state a) then a
      else (case handleGenerateNew_call (state a) click_event of
              (s1, p) \<Rightarrow> \<lparr>state = s1, in_flight = in_flight a @ [p]\<rparr>))"
| "step rt apiKey a ClickPrevious =
     (if isLoading (state a) \<or> historyIndex (state a) \<le> 0 then a
      else (case handlePrevious (state a) of
              None \<Rightarrow> a
            | Some s' \<Rightarrow> run_effect (a\<lparr>state := s'\<rparr>)))"
| "step rt apiKey a (Settle n out) = settle rt apiKey a n out"

fun run :: "runtime \<Rightarrow> string option \<Rightarrow> app \<Rightarrow> event list \<Rightarrow> app" where
  "run rt apiKey a [] = a"
| "run rt apiKey a (ev # evs) = run rt apiKey (step rt apiKey a ev) evs"

text \<open>The first render: the effect runs once on the initial state.\<close>

definition mount :: app where
  "mount = run_effect \<lparr>state = initial_session, in_flight = []\<rparr>"

text \<open>The data-model invariant of the cursor.\<close>

definition cursor_ok :: "session \<Rightarrow> bool" where
  "cursor_ok s =
     (historyIndex s = - 1 \<or> (0 \<le> historyIndex s \<and> historyIndex s < int (length (history s))))"

section \<open>A stand-in runtime and service answers for concrete runs\<close>

definition stub_parse :: "jsval \<Rightarrow> js_error + jsval" where
  \<open>stub_parse v =
     (if v = String ''["Tea","Coffee"]'' then Inr (Array [String ''Tea'', String ''Coffee''])
      else if v = String ''["Fly","Swim"]'' then Inr (Array [String ''Fly'', String ''Swim''])
      else if v = String ''["Cat","Dog"]'' then Inr (Array [String ''Cat'', String ''Dog''])
      else if v = String ''["","Coffee"]'' then Inr (Array [String [], String ''Coffee''])
      else if v = String ''["",""]'' then Inr (Array [String [], String []])
      else if v = String ''["a","b","c"]'' then Inr (Array [String ''a'', String ''b'', String ''c''])
      else if v = String ''[1,2]'' then Inr (Array [Number 1, Number 2])
      else Inl (SyntaxError ''Unexpected token''))\<close>

definition stub_runtime :: runtime where
  "stub_runtime =
     \<lparr>JSON_parse = stub_parse,
      JSON_stringify = (\<lambda>v. ''{}''),
      number_text = (\<lambda>n. ''500''),
      ToNumber_gt0 = (\<lambda>v. False),
      TypeError_text = (\<lambda>v k. ''Cannot read properties'')\<rparr>"

text \<open>A successful answer of the service whose first candidate carries the given text.\<close>

definition envelope :: "string \<Rightarrow> jsval" where
  "envelope t =
     Object [(''candidates'',
       Array [Object [(''content'',
         Object [(''parts'', Array [Object [(''text'', String t)]])])]])]"

definition answer :: "string \<Rightarrow> fetch_outcome" where
  "answer t = Resolved \<lparr>ok = True, status = 200, json = Inr (envelope t)\<rparr>"

section \<open>Facts about the client\<close>

lemma typeof_string_iff: "typeof v = ''string'' \<longleftrightarrow> (\<exists>a. v = String a)"
  by (cases v) auto

lemma length_two: "length xs = 2 \<longleftrightarrow> (\<exists>x y. xs = [x, y])"
  by (cases xs; cases "tl xs") auto

lemma options_valid_iff: "options_valid v \<longleftrightarrow> (\<exists>a b. v = Array [String a, String b])"
proof (cases v)
  case (Array xs)
  show ?thesis
  proof
    assume ov: "options_valid v"
    then have "length xs = 2"
      using Array by (simp add: options_valid_def)
    then obtain x y where xs: "xs = [x, y]"
      by (auto simp: length_two)
    with ov Array have "typeof x = ''string''" and "typeof y = ''string''"
      by (simp_all add: options_valid_def element_def)
    with xs Array show "\<exists>a b. v = Array [String a, String b]"
      by (auto simp: typeof_string_iff)
  next
    assume "\<exists>a b. v = Array [String a, String b]"
    then show "options_valid v" by (auto simp: options_valid_def element_def)
  qed
qed (auto simp: options_valid_def)

lemma envelope_ok_envelope: "envelope_ok rt (envelope t) = Inr True"
  by (simp add: envelope_ok_def envelope_def candidate0_content_def content_parts_def element_def)

lemma jsonString_of_envelope: "jsonString_of rt (envelope t) = Inr (String t)"
  by (simp add: jsonString_of_def envelope_def candidate0_content_def content_parts_def element_def)

lemma decode_result_two_strings:
  "decode_result rt result = Inr xs \<Longrightarrow> \<exists>a b. xs = [String a, String b]"
  by (auto simp: decode_result_def options_valid_iff split: sum.splits bool.splits if_splits)

lemma try_block_two_strings:
  "fst (try_block rt apiKey fetch c) = Inr xs \<Longrightarrow> \<exists>a b. xs = [String a, String b]"
  by (auto simp: try_block_def send_request_def handle_response_def
           dest: decode_result_two_strings split: option.splits if_splits fetch_outcome.splits sum.splits)

lemma returned_two_strings:
  "\<exists>a b. returned (fetchOptionsFromAI rt apiKey fetch c) = [String a, String b]"
proof (cases "try_block rt apiKey fetch c")
  case (Pair res reqs)
  show ?thesis
  proof (cases res)
    case (Inl e)
    with Pair show ?thesis by (simp add: fetchOptionsFromAI_def)
  next
    case (Inr xs)
    with Pair try_block_two_strings [of rt apiKey fetch c xs] show ?thesis
      by (simp add: fetchOptionsFromAI_def)
  qed
qed

lemma fetch_failure:
  "fst (try_block rt apiKey fetch c) = Inl e \<Longrightarrow>
     returned (fetchOptionsFromAI rt apiKey fetch c) = [String [], String []]
     \<and> caught (fetchOptionsFromAI rt apiKey fetch c) = Some (failure_text e)"
  by (cases "try_block rt apiKey fetch c") (simp add: fetchOptionsFromAI_def)

lemma fetch_success:
  "fst (try_block rt apiKey fetch c) = Inr xs \<Longrightarrow>
     returned (fetchOptionsFromAI rt apiKey fetch c) = xs
     \<and> caught (fetchOptionsFromAI rt apiKey fetch c) = None"
  by (cases "try_block rt apiKey fetch c") (simp add: fetchOptionsFromAI_def)

lemmas client_eval =
  try_block_def send_request_def always_def answer_def handle_response_def decode_result_def
  envelope_ok_envelope jsonString_of_envelope stub_runtime_def stub_parse_def options_valid_def
  element_def

lemma failure_text_unexpected_format:
  "failure_text (Error unexpected_format_message) =
     ''Failed to fetch options: AI response format was unexpected. Expected an array of two strings.. Please check your network or API key configuration.''"
  by (simp add: failure_text_def unexpected_format_message_def)

lemma failure_text_empty_or_malformed:
  "failure_text (Error empty_or_malformed_message) =
     ''Failed to fetch options: Failed to generate options from AI. Response was empty or malformed.. Please check your network or API key configuration.''"
  by (simp add: failure_text_def empty_or_malformed_message_def)

lemma try_block_on_result:
  assumes "apiKey = Some k" "k \<noteq> []"
      and "fetch \<lparr>url = apiUrl k, http_method = ''POST'', prompt_category = c\<rparr> = Resolved resp"
      and "ok resp" "json resp = Inr result"
  shows "fst (try_block rt apiKey fetch c) = decode_result rt result"
  using assms by (simp add: try_block_def send_request_def handle_response_def)

lemma decode_two_strings:
  assumes "envelope_ok rt result = Inr True" "jsonString_of rt result = Inr js"
      and "JSON_parse rt js = Inr (Array [String a, String b])"
  shows "decode_result rt result = Inr [String a, String b]"
  using assms by (simp add: decode_result_def options_valid_def element_def)

lemma decode_other_value:
  assumes "envelope_ok rt result = Inr True" "jsonString_of rt result = Inr js"
      and "JSON_parse rt js = Inr v" "\<forall>a b. v \<noteq> Array [String a, String b]"
  shows "decode_result rt result = Inl (Error unexpected_format_message)"
  using assms by (simp add: decode_result_def options_valid_iff)

lemma decode_parse_error:
  assumes "envelope_ok rt result = Inr True" "jsonString_of rt result = Inr js"
      and "JSON_parse rt js = Inl e"
  shows "decode_result rt result = Inl e"
  using assms by (simp add: decode_result_def)

lemma envelope_no_candidates:
  assumes "member rt result ''candidates'' = Inr cands" "\<not> truthy cands \<or> cands = Array []"
  shows "envelope_ok rt result = Inr False"
  using assms by (auto simp: envelope_ok_def)

lemma decode_no_candidates:
  assumes "member rt result ''candidates'' = Inr cands" "\<not> truthy cands \<or> cands = Array []"
  shows "decode_result rt result = Inl (Error empty_or_malformed_message)"
  using envelope_no_candidates [OF assms] by (simp add: decode_result_def)

lemma decode_accepts_iff:
  "(\<exists>xs. decode_result rt result = Inr xs) \<longleftrightarrow>
     (\<exists>js a b. envelope_ok rt result = Inr True \<and> jsonString_of rt result = Inr js
        \<and> JSON_parse rt js = Inr (Array [String a, String b]))"
proof
  assume "\<exists>xs. decode_result rt result = Inr xs"
  then obtain js options where "envelope_ok rt result = Inr True" "jsonString_of rt result = Inr js"
      "JSON_parse rt js = Inr options" "options_valid options"
    by (auto simp: decode_result_def split: sum.splits bool.splits if_splits)
  then show "\<exists>js a b. envelope_ok rt result = Inr True \<and> jsonString_of rt result = Inr js
        \<and> JSON_parse rt js = Inr (Array [String a, String b])"
    by (auto simp: options_valid_iff)
next
  assume "\<exists>js a b. envelope_ok rt result = Inr True \<and> jsonString_of rt result = Inr js
        \<and> JSON_parse rt js = Inr (Array [String a, String b])"
  then show "\<exists>xs. decode_result rt result = Inr xs"
    using decode_two_strings by blast
qed

lemma caught_None_iff:
  "caught (fetchOptionsFromAI rt apiKey fetch c) = None \<longleftrightarrow>
     (\<exists>xs. fst (try_block rt apiKey fetch c) = Inr xs)"
  by (cases "try_block rt apiKey fetch c"; cases "fst (try_block rt apiKey fetch c)")
     (auto simp: fetchOptionsFromAI_def)

lemma try_block_Inr_context:
  assumes "fst (try_block rt apiKey fetch c) = Inr xs"
  shows "\<exists>k resp result. apiKey = Some k \<and> k \<noteq> []
           \<and> fetch \<lparr>url = apiUrl k, http_method = ''POST'', prompt_category = c\<rparr> = Resolved resp
           \<and> ok resp \<and> json resp = Inr result \<and> decode_result rt result = Inr xs"
proof -
  from assms obtain k where k: "apiKey = Some k" "k \<noteq> []"
    by (cases apiKey) (auto simp: try_block_def split: if_splits)
  let ?req = "\<lparr>url = apiUrl k, http_method = ''POST'', prompt_category = c\<rparr>"
  from assms k obtain resp where resp: "fetch ?req = Resolved resp" "handle_response rt resp = Inr xs"
    by (cases "fetch ?req") (auto simp: try_block_def send_request_def)
  then obtain result where "ok resp" "json resp = Inr result" "decode_result rt result = Inr xs"
    by (cases "json resp") (auto simp: handle_response_def split: if_splits)
  with k resp show ?thesis by blast
qed

lemma stub_rejected:
  "fetchOptionsFromAI stub_runtime (Some ''secret'')
     (always (Rejected (TypeError ''Failed to fetch''))) c =
   \<lparr>returned = [String [], String []],
    caught = Some ''Failed to fetch options: Failed to fetch. Please check your network or API key configuration.'',
    requests = [\<lparr>url = apiUrl ''secret'', http_method = ''POST'', prompt_category = c\<rparr>]\<rparr>"
  by (simp add: fetchOptionsFromAI_def client_eval failure_text_def)

section \<open>Facts about the handlers\<close>

lemma resume_fields_failed:
  assumes "\<not> truthy (element (returned r) 0)" "\<not> truthy (element (returned r) 1)"
  shows "history (handleGenerateNew_resume r p s) = history s"
    and "historyIndex (handleGenerateNew_resume r p s) = historyIndex s"
    and "selectedCategory (handleGenerateNew_resume r p s) = selectedCategory s"
    and "isLoading (handleGenerateNew_resume r p s) = False"
    and "optionA (handleGenerateNew_resume r p s) = element (returned r) 0"
    and "optionB (handleGenerateNew_resume r p s) = element (returned r) 1"
    and "error (handleGenerateNew_resume r p s) = (case caught r of None \<Rightarrow> error s | Some m \<Rightarrow> m)"
  using assms by (simp_all add: handleGenerateNew_resume_def Let_def split: option.splits)

lemma resume_fields_succeeded:
  assumes "truthy (element (returned r) 0) \<or> truthy (element (returned r) 1)"
  shows "history (handleGenerateNew_resume r p s) =
           (if truthy (initialLoad p) then [] else slice0 (history s) (captured_historyIndex p + 1))
           @ [\<lparr>category = captured_selectedCategory p,
                question_optionA = element (returned r) 0,
                question_optionB = element (returned r) 1\<rparr>]"
    and "historyIndex (handleGenerateNew_resume r p s) =
           (if truthy (initialLoad p) then 0 else historyIndex s + 1)"
    and "selectedCategory (handleGenerateNew_resume r p s) = selectedCategory s"
    and "isLoading (handleGenerateNew_resume r p s) = False"
    and "optionA (handleGenerateNew_resume r p s) = element (returned r) 0"
    and "optionB (handleGenerateNew_resume r p s) = element (returned r) 1"
    and "error (handleGenerateNew_resume r p s) = (case caught r of None \<Rightarrow> error s | Some m \<Rightarrow> m)"
  using assms by (auto simp: handleGenerateNew_resume_def Let_def split: option.splits)

lemma falsy_strings:
  assumes "\<not> truthy (element (returned (fetchOptionsFromAI rt apiKey fetch c)) 0)"
      and "\<not> truthy (element (returned (fetchOptionsFromAI rt apiKey fetch c)) 1)"
  shows "returned (fetchOptionsFromAI rt apiKey fetch c) = [String [], String []]"
proof -
  obtain a b where ab: "returned (fetchOptionsFromAI rt apiKey fetch c) = [String a, String b]"
    using returned_two_strings by blast
  with assms show ?thesis by (simp add: element_def)
qed

lemma run_effect_none:
  "regeneration_effect (state a) = None \<Longrightarrow> run_effect a = a"
  by (simp add: run_effect_def)

lemma run_effect_some:
  "regeneration_effect (state a) = Some arg \<Longrightarrow>
     run_effect a =
       \<lparr>state = (state a)\<lparr>isLoading := True, error := []\<rparr>,
        in_flight = in_flight a @
          [\<lparr>captured_selectedCategory = selectedCategory (state a),
            captured_historyIndex = historyIndex (state a),
            initialLoad = default_false arg\<rparr>]\<rparr>"
  by (simp add: run_effect_def handleGenerateNew_call_def)

lemma settle_failed:
  assumes "n < length (in_flight a)"
      and "returned (fetchOptionsFromAI rt apiKey (always out)
             (captured_selectedCategory (in_flight a ! n))) = [String [], String []]"
  shows "settle rt apiKey a n out =
           \<lparr>state = (state a)
              \<lparr>error := (case caught (fetchOptionsFromAI rt apiKey (always out)
                                   (captured_selectedCategory (in_flight a ! n))) of
                            None \<Rightarrow> error (state a) | Some m \<Rightarrow> m),
               optionA := String [], optionB := String [], isLoading := False\<rparr>,
            in_flight = take n (in_flight a) @ drop (Suc n) (in_flight a)\<rparr>"
  using assms
  by (simp add: settle_def Let_def handleGenerateNew_resume_def element_def split: option.splits)

lemma click_next_enabled:
  "\<not> isLoading (state a) \<Longrightarrow>
     step rt apiKey a ClickNext =
       \<lparr>state = (state a)\<lparr>isLoading := True, error := []\<rparr>,
        in_flight = in_flight a @
          [\<lparr>captured_selectedCategory = selectedCategory (state a),
            captured_historyIndex = historyIndex (state a),
            initialLoad = click_event\<rparr>]\<rparr>"
  by (simp add: handleGenerateNew_call_def default_false_def click_event_def)

lemma start_keeps_history:
  "history (state (step rt apiKey a ClickNext)) = history (state a)
   \<and> historyIndex (state (step rt apiKey a ClickNext)) = historyIndex (state a)
   \<and> history (state (step rt apiKey a (SelectCategory c))) = history (state a)
   \<and> historyIndex (state (step rt apiKey a (SelectCategory c))) = historyIndex (state a)"
  by (auto simp: handleGenerateNew_call_def run_effect_def split: option.splits)

lemma next_then_settle_failed:
  assumes "in_flight a = []" "\<not> isLoading (state a)"
      and "returned (fetchOptionsFromAI rt apiKey (always out) (selectedCategory (state a)))
             = [String [], String []]"
  shows "run rt apiKey a [ClickNext, Settle 0 out] =
           \<lparr>state = (state a)
              \<lparr>error := (case caught (fetchOptionsFromAI rt apiKey (always out)
                                   (selectedCategory (state a))) of
                            None \<Rightarrow> [] | Some m \<Rightarrow> m),
               optionA := String [], optionB := String [], isLoading := False\<rparr>,
            in_flight = []\<rparr>"
proof -
  let ?r = "fetchOptionsFromAI rt apiKey (always out) (selectedCategory (state a))"
  let ?a1 = "\<lparr>state = (state a)\<lparr>isLoading := True, error := []\<rparr>,
        in_flight = [\<lparr>captured_selectedCategory = selectedCategory (state a),
            captured_historyIndex = historyIndex (state a),
            initialLoad = click_event\<rparr>]\<rparr>"
  have a1: "step rt apiKey a ClickNext = ?a1"
    using assms(1,2) click_next_enabled [of a rt apiKey] by simp
  have "run rt apiKey a [ClickNext, Settle 0 out] = settle rt apiKey (step rt apiKey a ClickNext) 0 out"
    by (simp del: step.simps(2))
  also have "\<dots> = settle rt apiKey ?a1 0 out"
    unfolding a1 ..
  also have "\<dots> = \<lparr>state = (state a)
             \<lparr>error := (case caught ?r of None \<Rightarrow> [] | Some m \<Rightarrow> m),
              optionA := String [], optionB := String [], isLoading := False\<rparr>,
           in_flight = []\<rparr>"
    using assms(3) by (subst settle_failed) (simp_all split: option.splits)
  finally show ?thesis .
qed

lemmas app_eval =
  mount_def run_effect_def regeneration_effect_def history_at_def initial_session_def
  handleGenerateNew_call_def default_false_def settle_def handleGenerateNew_resume_def
  fetchOptionsFromAI_def client_eval slice0_def categories_def click_event_def Let_def
  handlePrevious_def

lemma after_first_load:
  \<open>run stub_runtime (Some ''secret'') mount [Settle 0 (answer ''["Tea","Coffee"]'')] =
     \<lparr>state =
        \<lparr>selectedCategory = ''Everyday Life'', optionA = String ''Tea'',
         optionB = String ''Coffee'', isLoading = False, error = [],
         history = [\<lparr>category = ''Everyday Life'', question_optionA = String ''Tea'',
                     question_optionB = String ''Coffee''\<rparr>],
         historyIndex = 0\<rparr>,
      in_flight = []\<rparr>\<close>
  by (simp add: app_eval)

lemma after_first_load_next:
  \<open>run stub_runtime (Some ''secret'') mount [Settle 0 (answer ''["Tea","Coffee"]''), ClickNext] =
     \<lparr>state =
        \<lparr>selectedCategory = ''Everyday Life'', optionA = String ''Tea'',
         optionB = String ''Coffee'', isLoading = True, error = [],
         history = [\<lparr>category = ''Everyday Life'', question_optionA = String ''Tea'',
                     question_optionB = String ''Coffee''\<rparr>],
         historyIndex = 0\<rparr>,
      in_flight = [\<lparr>captured_selectedCategory = ''Everyday Life'', captured_historyIndex = 0,
                    initialLoad = click_event\<rparr>]\<rparr>\<close>
  by (simp add: app_eval)

lemma after_failed_change:
  \<open>run stub_runtime (Some ''secret'') mount
     [Settle 0 (answer ''["Tea","Coffee"]''), SelectCategory ''Superpowers'',
      Settle 0 (Rejected (TypeError ''Failed to fetch''))] =
     \<lparr>state =
        \<lparr>selectedCategory = ''Superpowers'', optionA = String [],
         optionB = String [], isLoading = False,
         error = ''Failed to fetch options: Failed to fetch. Please check your network or API key configuration.'',
         history = [\<lparr>category = ''Everyday Life'', question_optionA = String ''Tea'',
                     question_optionB = String ''Coffee''\<rparr>],
         historyIndex = 0\<rparr>,
      in_flight = []\<rparr>\<close>
  by (simp add: app_eval failure_text_def)

lemma after_failed_first_load:
  "run stub_runtime (Some ''secret'') mount [Settle 0 (Rejected (TypeError ''Failed to fetch''))] =
     \<lparr>state =
        \<lparr>selectedCategory = ''Everyday Life'', optionA = String [],
         optionB = String [], isLoading = False,
         error = ''Failed to fetch options: Failed to fetch. Please check your network or API key configuration.'',
         history = [], historyIndex = - 1\<rparr>,
      in_flight = []\<rparr>"
  by (simp add: app_eval failure_text_def)

section \<open>The handlers while no other call waits\<close>

text \<open>
  Two facts about a session in which calls do not overlap: a category change followed by
  the success of the call it starts keeps the first \<open>cursor + 1\<close> entries, appends the new
  one and moves the cursor to it; and ``Previous Question'', when enabled with the entry
  before the cursor in the history, replays that entry.
\<close>

lemma category_change_when_nothing_waits:
  assumes "in_flight a = []"
      and "0 \<le> historyIndex (state a)" "historyIndex (state a) < int (length (history (state a)))"
      and "c \<in> set categories" "c \<noteq> selectedCategory (state a)"
      and "category (history (state a) ! nat (historyIndex (state a))) \<noteq> c"
      and "returned (fetchOptionsFromAI rt apiKey (always out) c) = [x, y]"
      and "truthy x \<or> truthy y"
  shows "history (state (run rt apiKey a [SelectCategory c, Settle 0 out])) =
           take (nat (historyIndex (state a) + 1)) (history (state a))
             @ [\<lparr>category = c, question_optionA = x, question_optionB = y\<rparr>]
       \<and> historyIndex (state (run rt apiKey a [SelectCategory c, Settle 0 out]))
           = historyIndex (state a) + 1
       \<and> historyIndex (state (run rt apiKey a [SelectCategory c, Settle 0 out]))
           = int (length (history (state (run rt apiKey a [SelectCategory c, Settle 0 out])))) - 1
       \<and> in_flight (run rt apiKey a [SelectCategory c, Settle 0 out]) = []
       \<and> (historyIndex (state a) = 2 \<and> length (history (state a)) = 3 \<longrightarrow>
            length (history (state (run rt apiKey a [SelectCategory c, Settle 0 out]))) = 4
            \<and> historyIndex (state (run rt apiKey a [SelectCategory c, Settle 0 out])) = 3)"
proof -
  let ?i = "historyIndex (state a)"
  let ?p = "\<lparr>captured_selectedCategory = c, captured_historyIndex = ?i,
             initialLoad = Boolean False\<rparr>"
  let ?s1 = "(state a)\<lparr>selectedCategory := c, isLoading := True, error := []\<rparr>"
  let ?r = "fetchOptionsFromAI rt apiKey (always out) c"
  have at: "history_at (history (state a)) ?i = Some (history (state a) ! nat ?i)"
    using assms(2,3) by (simp add: history_at_def)
  have eff: "regeneration_effect ((state a)\<lparr>selectedCategory := c\<rparr>) = Some (Boolean False)"
    using at assms(2,6) by (simp add: regeneration_effect_def)
  have a1: "step rt apiKey a (SelectCategory c) = \<lparr>state = ?s1, in_flight = [?p]\<rparr>"
    using assms(1,4,5) eff
    by (simp add: run_effect_def handleGenerateNew_call_def default_false_def)
  let ?s2 = "handleGenerateNew_resume ?r ?p ?s1"
  have ok: "truthy (element (returned ?r) 0) \<or> truthy (element (returned ?r) 1)"
    using assms(7,8) by (simp add: element_def)
  have el: "element (returned ?r) 0 = x" "element (returned ?r) 1 = y"
    using assms(7) by (simp_all add: element_def)
  have hist: "history ?s2 = take (nat (?i + 1)) (history (state a))
                @ [\<lparr>category = c, question_optionA = x, question_optionB = y\<rparr>]"
    using assms(2) el by (simp add: resume_fields_succeeded(1) [OF ok] slice0_def)
  have idx: "historyIndex ?s2 = ?i + 1"
    by (simp add: resume_fields_succeeded(2) [OF ok])
  have cat: "selectedCategory ?s2 = c"
    by (simp add: resume_fields_succeeded(3) [OF ok])
  have len: "int (length (history ?s2)) = ?i + 2"
    using assms(2,3) by (simp add: hist)
  have last: "history_at (history ?s2) (historyIndex ?s2)
               = Some \<lparr>category = c, question_optionA = x, question_optionB = y\<rparr>"
    using assms(2,3) len unfolding history_at_def idx
    by (simp add: hist nth_append)
  have eff2: "regeneration_effect ?s2 = None"
    by (simp add: regeneration_effect_def last cat)
  have "run rt apiKey a [SelectCategory c, Settle 0 out]
          = settle rt apiKey (step rt apiKey a (SelectCategory c)) 0 out"
    by (simp del: step.simps(1))
  also have "\<dots> = settle rt apiKey \<lparr>state = ?s1, in_flight = [?p]\<rparr> 0 out"
    unfolding a1 ..
  also have "\<dots> = run_effect \<lparr>state = ?s2, in_flight = []\<rparr>"
    using ok by (simp add: settle_def Let_def)
  also have "\<dots> = \<lparr>state = ?s2, in_flight = []\<rparr>"
    using eff2 by (simp add: run_effect_none)
  finally have a2:
    "run rt apiKey a [SelectCategory c, Settle 0 out] = \<lparr>state = ?s2, in_flight = []\<rparr>" .
  define s2 where "s2 = ?s2"
  have "history s2 = take (nat (?i + 1)) (history (state a))
                @ [\<lparr>category = c, question_optionA = x, question_optionB = y\<rparr>]"
    and "historyIndex s2 = ?i + 1"
    and "int (length (history s2)) = ?i + 2"
    using hist idx len by (simp_all add: s2_def)
  then show ?thesis
    unfolding a2 s2_def [symmetric] by simp
qed

lemma previous_when_entry_exists:
  assumes "\<not> isLoading (state a)" "0 < historyIndex (state a)"
      and "historyIndex (state a) \<le> int (length (history (state a)))"
  shows "step rt apiKey a ClickPrevious =
          a\<lparr>state := (state a)
             \<lparr>optionA := question_optionA (history (state a) ! nat (historyIndex (state a) - 1)),
              optionB := question_optionB (history (state a) ! nat (historyIndex (state a) - 1)),
              selectedCategory := category (history (state a) ! nat (historyIndex (state a) - 1)),
              historyIndex := historyIndex (state a) - 1\<rparr>\<rparr>"
proof -
  let ?q = "history (state a) ! nat (historyIndex (state a) - 1)"
  let ?s' = "(state a)\<lparr>optionA := question_optionA ?q, optionB := question_optionB ?q,
              selectedCategory := category ?q, historyIndex := historyIndex (state a) - 1\<rparr>"
  from assms have at: "history_at (history (state a)) (historyIndex (state a) - 1) = Some ?q"
    by (simp add: history_at_def)
  with assms have hp: "handlePrevious (state a) = Some ?s'"
    by (simp add: handlePrevious_def Let_def)
  have "regeneration_effect ?s' = None"
    using at by (simp add: regeneration_effect_def)
  then have "run_effect (a\<lparr>state := ?s'\<rparr>) = a\<lparr>state := ?s'\<rparr>"
    by (simp add: run_effect_none)
  with assms hp show ?thesis
    by simp
qed

section \<open>The ``Next Question'' button\<close>

text \<open>
  Claim C1. The explicit ``next'' action is meant to start a generation for the selected
  category that, on success, appends the new entry to the (possibly truncated) history
  and moves the cursor to the new last index, and never to reset the history as the initial
  load does. The button is wired as \<^verbatim>\<open>onClick={handleGenerateNew}\<close>, so the handler
  receives the click event as \<^verbatim>\<open>initialLoad\<close>; an object is truthy, and the run below shows
  the reset: after the first question has been loaded, a click on the button followed by a
  successful answer leaves a history of one entry (the new one) and the cursor at 0,
  where an append would give two entries and the cursor at 1.
\<close>

theorem next_click_resets_history:
  \<open>history (state (run stub_runtime (Some ''secret'') mount
      [Settle 0 (answer ''["Tea","Coffee"]''), ClickNext, Settle 0 (answer ''["Fly","Swim"]'')]))
    = [\<lparr>category = ''Everyday Life'', question_optionA = String ''Fly'',
        question_optionB = String ''Swim''\<rparr>]
   \<and> historyIndex (state (run stub_runtime (Some ''secret'') mount
      [Settle 0 (answer ''["Tea","Coffee"]''), ClickNext, Settle 0 (answer ''["Fly","Swim"]'')]))
    = 0
   \<and> history (state (run stub_runtime (Some ''secret'') mount
      [Settle 0 (answer ''["Tea","Coffee"]'')]))
    = [\<lparr>category = ''Everyday Life'', question_optionA = String ''Tea'',
        question_optionB = String ''Coffee''\<rparr>]\<close>
  by (simp add: app_eval)

section \<open>What the client accepts\<close>

text \<open>
  Claim C2, amended. The client takes a response as a success exactly when the credential
  is present, the request resolved with an \<^verbatim>\<open>ok\<close> response whose body is JSON, the
  envelope carries a first candidate with a first part, and the text of that part parses
  to an array of exactly two strings; the strings may be empty. For such a response it
  returns these two strings and reports nothing. A parsed value of any other shape (not
  an array, wrong length, an element that is not a string) is reported with the
  ``unexpected format'' message, text that does not parse with the parser's message, and
  an absent or empty candidate list with the ``empty or malformed'' message; each time two
  empty strings are returned. For the usual envelope around a text \<open>t\<close> the call succeeds
  exactly when \<open>t\<close> parses to two strings.
\<close>

theorem accepted_iff_two_strings:
  "(caught (fetchOptionsFromAI rt apiKey fetch c) = None \<longleftrightarrow>
      (\<exists>k resp result js a b.
         apiKey = Some k \<and> k \<noteq> []
         \<and> fetch \<lparr>url = apiUrl k, http_method = ''POST'', prompt_category = c\<rparr> = Resolved resp
         \<and> ok resp \<and> json resp = Inr result
         \<and> envelope_ok rt result = Inr True
         \<and> jsonString_of rt result = Inr js
         \<and> JSON_parse rt js = Inr (Array [String a, String b])))
   \<and> (\<forall>k resp result.
         apiKey = Some k \<and> k \<noteq> []
         \<and> fetch \<lparr>url = apiUrl k, http_method = ''POST'', prompt_category = c\<rparr> = Resolved resp
         \<and> ok resp \<and> json resp = Inr result \<longrightarrow>
         (\<forall>js a b. envelope_ok rt result = Inr True \<and> jsonString_of rt result = Inr js
              \<and> JSON_parse rt js = Inr (Array [String a, String b]) \<longrightarrow>
            caught (fetchOptionsFromAI rt apiKey fetch c) = None
            \<and> returned (fetchOptionsFromAI rt apiKey fetch c) = [String a, String b])
         \<and> (\<forall>js v. envelope_ok rt result = Inr True \<and> jsonString_of rt result = Inr js
              \<and> JSON_parse rt js = Inr v \<and> (\<forall>a b. v \<noteq> Array [String a, String b]) \<longrightarrow>
            caught (fetchOptionsFromAI rt apiKey fetch c) =
              Some ''Failed to fetch options: AI response format was unexpected. Expected an array of two strings.. Please check your network or API key configuration.''
            \<and> returned (fetchOptionsFromAI rt apiKey fetch c) = [String [], String []])
         \<and> (\<forall>js e. envelope_ok rt result = Inr True \<and> jsonString_of rt result = Inr js
              \<and> JSON_parse rt js = Inl e \<longrightarrow>
            caught (fetchOptionsFromAI rt apiKey fetch c) =
              Some (''Failed to fetch options: '' @ message e
                    @ ''. Please check your network or API key configuration.'')
            \<and> returned (fetchOptionsFromAI rt apiKey fetch c) = [String [], String []])
         \<and> (\<forall>cands. member rt result ''candidates'' = Inr cands
              \<and> (\<not> truthy cands \<or> cands = Array []) \<longrightarrow>
            caught (fetchOptionsFromAI rt apiKey fetch c) =
              Some ''Failed to fetch options: Failed to generate options from AI. Response was empty or malformed.. Please check your network or API key configuration.''
            \<and> returned (fetchOptionsFromAI rt apiKey fetch c) = [String [], String []])
         \<and> (\<forall>t. result = envelope t \<longrightarrow>
              (caught (fetchOptionsFromAI rt apiKey fetch c) = None \<longleftrightarrow>
                 (\<exists>a b. JSON_parse rt (String t) = Inr (Array [String a, String b])))))
   \<and> (caught (fetchOptionsFromAI rt apiKey fetch c) \<noteq> None \<longrightarrow>
         returned (fetchOptionsFromAI rt apiKey fetch c) = [String [], String []])"
proof (intro conjI)
  show "caught (fetchOptionsFromAI rt apiKey fetch c) = None \<longleftrightarrow>
      (\<exists>k resp result js a b.
         apiKey = Some k \<and> k \<noteq> []
         \<and> fetch \<lparr>url = apiUrl k, http_method = ''POST'', prompt_category = c\<rparr> = Resolved resp
         \<and> ok resp \<and> json resp = Inr result
         \<and> envelope_ok rt result = Inr True
         \<and> jsonString_of rt result = Inr js
         \<and> JSON_parse rt js = Inr (Array [String a, String b]))"
  proof
    assume "caught (fetchOptionsFromAI rt apiKey fetch c) = None"
    then obtain xs where "fst (try_block rt apiKey fetch c) = Inr xs"
      by (auto simp: caught_None_iff)
    from try_block_Inr_context [OF this] obtain k resp result where
      ctx: "apiKey = Some k" "k \<noteq> []"
        "fetch \<lparr>url = apiUrl k, http_method = ''POST'', prompt_category = c\<rparr> = Resolved resp"
        "ok resp" "json resp = Inr result" and d: "decode_result rt result = Inr xs"
      by blast
    from d obtain js a b where "envelope_ok rt result = Inr True" "jsonString_of rt result = Inr js"
        "JSON_parse rt js = Inr (Array [String a, String b])"
      using decode_accepts_iff [of rt result] by blast
    with ctx show "\<exists>k resp result js a b.
         apiKey = Some k \<and> k \<noteq> []
         \<and> fetch \<lparr>url = apiUrl k, http_method = ''POST'', prompt_category = c\<rparr> = Resolved resp
         \<and> ok resp \<and> json resp = Inr result
         \<and> envelope_ok rt result = Inr True
         \<and> jsonString_of rt result = Inr js
         \<and> JSON_parse rt js = Inr (Array [String a, String b])"
      by blast
  next
    assume "\<exists>k resp result js a b.
         apiKey = Some k \<and> k \<noteq> []
         \<and> fetch \<lparr>url = apiUrl k, http_method = ''POST'', prompt_category = c\<rparr> = Resolved resp
         \<and> ok resp \<and> json resp = Inr result
         \<and> envelope_ok rt result = Inr True
         \<and> jsonString_of rt result = Inr js
         \<and> JSON_parse rt js = Inr (Array [String a, String b])"
    then obtain k resp result js a b where
      ctx: "apiKey = Some k" "k \<noteq> []"
        "fetch \<lparr>url = apiUrl k, http_method = ''POST'', prompt_category = c\<rparr> = Resolved resp"
        "ok resp" "json resp = Inr result"
      and p: "envelope_ok rt result = Inr True" "jsonString_of rt result = Inr js"
        "JSON_parse rt js = Inr (Array [String a, String b])"
      by blast
    have "fst (try_block rt apiKey fetch c) = decode_result rt result"
      using ctx by (rule try_block_on_result)
    then have "fst (try_block rt apiKey fetch c) = Inr [String a, String b]"
      using decode_two_strings [OF p] by simp
    then show "caught (fetchOptionsFromAI rt apiKey fetch c) = None"
      using fetch_success by blast
  qed
next
  show "\<forall>k resp result.
         apiKey = Some k \<and> k \<noteq> []
         \<and> fetch \<lparr>url = apiUrl k, http_method = ''POST'', prompt_category = c\<rparr> = Resolved resp
         \<and> ok resp \<and> json resp = Inr result \<longrightarrow>
         (\<forall>js a b. envelope_ok rt result = Inr True \<and> jsonString_of rt result = Inr js
              \<and> JSON_parse rt js = Inr (Array [String a, String b]) \<longrightarrow>
            caught (fetchOptionsFromAI rt apiKey fetch c) = None
            \<and> returned (fetchOptionsFromAI rt apiKey fetch c) = [String a, String b])
         \<and> (\<forall>js v. envelope_ok rt result = Inr True \<and> jsonString_of rt result = Inr js
              \<and> JSON_parse rt js = Inr v \<and> (\<forall>a b. v \<noteq> Array [String a, String b]) \<longrightarrow>
            caught (fetchOptionsFromAI rt apiKey fetch c) =
              Some ''Failed to fetch options: AI response format was unexpected. Expected an array of two strings.. Please check your network or API key configuration.''
            \<and> returned (fetchOptionsFromAI rt apiKey fetch c) = [String [], String []])
         \<and> (\<forall>js e. envelope_ok rt result = Inr True \<and> jsonString_of rt result = Inr js
              \<and> JSON_parse rt js = Inl e \<longrightarrow>
            caught (fetchOptionsFromAI rt apiKey fetch c) =
              Some (''Failed to fetch options: '' @ message e
                    @ ''. Please check your network or API key configuration.'')
            \<and> returned (fetchOptionsFromAI rt apiKey fetch c) = [String [], String []])
         \<and> (\<forall>cands. member rt result ''candidates'' = Inr cands
              \<and> (\<not> truthy cands \<or> cands = Array []) \<longrightarrow>
            caught (fetchOptionsFromAI rt apiKey fetch c) =
              Some ''Failed to fetch options: Failed to generate options from AI. Response was empty or malformed.. Please check your network or API key configuration.''
            \<and> returned (fetchOptionsFromAI rt apiKey fetch c) = [String [], String []])
         \<and> (\<forall>t. result = envelope t \<longrightarrow>
              (caught (fetchOptionsFromAI rt apiKey fetch c) = None \<longleftrightarrow>
                 (\<exists>a b. JSON_parse rt (String t) = Inr (Array [String a, String b]))))"
  proof (intro allI impI, elim conjE)
    fix k resp result
    assume ctx: "apiKey = Some k" "k \<noteq> []"
        "fetch \<lparr>url = apiUrl k, http_method = ''POST'', prompt_category = c\<rparr> = Resolved resp"
        "ok resp" "json resp = Inr result"
    have tb: "fst (try_block rt apiKey fetch c) = decode_result rt result"
      using ctx by (rule try_block_on_result)
    have ok2: "\<And>js a b. envelope_ok rt result = Inr True \<Longrightarrow> jsonString_of rt result = Inr js
              \<Longrightarrow> JSON_parse rt js = Inr (Array [String a, String b]) \<Longrightarrow>
            caught (fetchOptionsFromAI rt apiKey fetch c) = None
            \<and> returned (fetchOptionsFromAI rt apiKey fetch c) = [String a, String b]"
      using tb fetch_success [of rt apiKey fetch c] decode_two_strings [of rt result] by simp
    have bad: "\<And>js v. envelope_ok rt result = Inr True \<Longrightarrow> jsonString_of rt result = Inr js
              \<Longrightarrow> JSON_parse rt js = Inr v \<Longrightarrow> \<forall>a b. v \<noteq> Array [String a, String b] \<Longrightarrow>
            caught (fetchOptionsFromAI rt apiKey fetch c) =
              Some ''Failed to fetch options: AI response format was unexpected. Expected an array of two strings.. Please check your network or API key configuration.''
            \<and> returned (fetchOptionsFromAI rt apiKey fetch c) = [String [], String []]"
    proof -
      fix js v
      assume "envelope_ok rt result = Inr True" "jsonString_of rt result = Inr js"
        "JSON_parse rt js = Inr v" "\<forall>a b. v \<noteq> Array [String a, String b]"
      then have "fst (try_block rt apiKey fetch c) = Inl (Error unexpected_format_message)"
        using tb decode_other_value by simp
      from fetch_failure [OF this] show "caught (fetchOptionsFromAI rt apiKey fetch c) =
              Some ''Failed to fetch options: AI response format was unexpected. Expected an array of two strings.. Please check your network or API key configuration.''
            \<and> returned (fetchOptionsFromAI rt apiKey fetch c) = [String [], String []]"
        by (simp add: failure_text_unexpected_format)
    qed
    have perr: "\<And>js e. envelope_ok rt result = Inr True \<Longrightarrow> jsonString_of rt result = Inr js
              \<Longrightarrow> JSON_parse rt js = Inl e \<Longrightarrow>
            caught (fetchOptionsFromAI rt apiKey fetch c) =
              Some (''Failed to fetch options: '' @ message e
                    @ ''. Please check your network or API key configuration.'')
            \<and> returned (fetchOptionsFromAI rt apiKey fetch c) = [String [], String []]"
    proof -
      fix js e
      assume "envelope_ok rt result = Inr True" "jsonString_of rt result = Inr js"
        "JSON_parse rt js = Inl e"
      then have "fst (try_block rt apiKey fetch c) = Inl e"
        using tb decode_parse_error by simp
      from fetch_failure [OF this] show "caught (fetchOptionsFromAI rt apiKey fetch c) =
              Some (''Failed to fetch options: '' @ message e
                    @ ''. Please check your network or API key configuration.'')
            \<and> returned (fetchOptionsFromAI rt apiKey fetch c) = [String [], String []]"
        by (simp add: failure_text_def)
    qed
    have nocand: "\<And>cands. member rt result ''candidates'' = Inr cands
              \<Longrightarrow> \<not> truthy cands \<or> cands = Array [] \<Longrightarrow>
            caught (fetchOptionsFromAI rt apiKey fetch c) =
              Some ''Failed to fetch options: Failed to generate options from AI. Response was empty or malformed.. Please check your network or API key configuration.''
            \<and> returned (fetchOptionsFromAI rt apiKey fetch c) = [String [], String []]"
    proof -
      fix cands
      assume "member rt result ''candidates'' = Inr cands" "\<not> truthy cands \<or> cands = Array []"
      then have "fst (try_block rt apiKey fetch c) = Inl (Error empty_or_malformed_message)"
        using tb decode_no_candidates by simp
      from fetch_failure [OF this] show "caught (fetchOptionsFromAI rt apiKey fetch c) =
              Some ''Failed to fetch options: Failed to generate options from AI. Response was empty or malformed.. Please check your network or API key configuration.''
            \<and> returned (fetchOptionsFromAI rt apiKey fetch c) = [String [], String []]"
        by (simp add: failure_text_empty_or_malformed)
    qed
    have env: "\<And>t. result = envelope t \<Longrightarrow>
              (caught (fetchOptionsFromAI rt apiKey fetch c) = None \<longleftrightarrow>
                 (\<exists>a b. JSON_parse rt (String t) = Inr (Array [String a, String b])))"
    proof -
      fix t assume r: "result = envelope t"
      have "caught (fetchOptionsFromAI rt apiKey fetch c) = None
              \<longleftrightarrow> (\<exists>xs. decode_result rt result = Inr xs)"
        by (simp add: caught_None_iff tb)
      also have "\<dots> \<longleftrightarrow> (\<exists>a b. JSON_parse rt (String t) = Inr (Array [String a, String b]))"
        unfolding decode_accepts_iff r
        by (simp add: envelope_ok_envelope jsonString_of_envelope)
      finally show "caught (fetchOptionsFromAI rt apiKey fetch c) = None \<longleftrightarrow>
                 (\<exists>a b. JSON_parse rt (String t) = Inr (Array [String a, String b]))" .
    qed
    from ok2 bad perr nocand env
    show "(\<forall>js a b. envelope_ok rt result = Inr True \<and> jsonString_of rt result = Inr js
              \<and> JSON_parse rt js = Inr (Array [String a, String b]) \<longrightarrow>
            caught (fetchOptionsFromAI rt apiKey fetch c) = None
            \<and> returned (fetchOptionsFromAI rt apiKey fetch c) = [String a, String b])
         \<and> (\<forall>js v. envelope_ok rt result = Inr True \<and> jsonString_of rt result = Inr js
              \<and> JSON_parse rt js = Inr v \<and> (\<forall>a b. v \<noteq> Array [String a, String b]) \<longrightarrow>
            caught (fetchOptionsFromAI rt apiKey fetch c) =
              Some ''Failed to fetch options: AI response format was unexpected. Expected an array of two strings.. Please check your network or API key configuration.''
            \<and> returned (fetchOptionsFromAI rt apiKey fetch c) = [String [], String []])
         \<and> (\<forall>js e. envelope_ok rt result = Inr True \<and> jsonString_of rt result = Inr js
              \<and> JSON_parse rt js = Inl e \<longrightarrow>
            caught (fetchOptionsFromAI rt apiKey fetch c) =
              Some (''Failed to fetch options: '' @ message e
                    @ ''. Please check your network or API key configuration.'')
            \<and> returned (fetchOptionsFromAI rt apiKey fetch c) = [String [], String []])
         \<and> (\<forall>cands. member rt result ''candidates'' = Inr cands
              \<and> (\<not> truthy cands \<or> cands = Array []) \<longrightarrow>
            caught (fetchOptionsFromAI rt apiKey fetch c) =
              Some ''Failed to fetch options: Failed to generate options from AI. Response was empty or malformed.. Please check your network or API key configuration.''
            \<and> returned (fetchOptionsFromAI rt apiKey fetch c) = [String [], String []])
         \<and> (\<forall>t. result = envelope t \<longrightarrow>
              (caught (fetchOptionsFromAI rt apiKey fetch c) = None \<longleftrightarrow>
                 (\<exists>a b. JSON_parse rt (String t) = Inr (Array [String a, String b]))))"
      by (intro conjI allI impI; (elim conjE)?; blast)
  qed
next
  show "caught (fetchOptionsFromAI rt apiKey fetch c) \<noteq> None \<longrightarrow>
         returned (fetchOptionsFromAI rt apiKey fetch c) = [String [], String []]"
    by (cases "try_block rt apiKey fetch c"; cases "fst (try_block rt apiKey fetch c)")
       (auto simp: fetchOptionsFromAI_def)
qed

theorem accepted_iff_two_strings_witness:
  \<open>caught (fetchOptionsFromAI stub_runtime (Some ''secret'') (always (answer ''["a","b","c"]''))
      ''Animals'')
     = Some ''Failed to fetch options: AI response format was unexpected. Expected an array of two strings.. Please check your network or API key configuration.''
   \<and> returned (fetchOptionsFromAI stub_runtime (Some ''secret'') (always (answer ''["a","b","c"]''))
      ''Animals'') = [String [], String []]
   \<and> caught (fetchOptionsFromAI stub_runtime (Some ''secret'') (always (answer ''[1,2]''))
      ''Animals'')
     = Some ''Failed to fetch options: AI response format was unexpected. Expected an array of two strings.. Please check your network or API key configuration.''
   \<and> caught (fetchOptionsFromAI stub_runtime (Some ''secret'') (always (answer ''not json''))
      ''Animals'')
     = Some ''Failed to fetch options: Unexpected token. Please check your network or API key configuration.''
   \<and> caught (fetchOptionsFromAI stub_runtime (Some ''secret'')
        (always (Resolved \<lparr>ok = True, status = 200,
                            json = Inr (Object [(''candidates'', Array [])])\<rparr>)) ''Animals'')
     = Some ''Failed to fetch options: Failed to generate options from AI. Response was empty or malformed.. Please check your network or API key configuration.''
   \<and> caught (fetchOptionsFromAI stub_runtime (Some ''secret'') (always (answer ''["Tea","Coffee"]''))
      ''Animals'') = None
   \<and> returned (fetchOptionsFromAI stub_runtime (Some ''secret'') (always (answer ''["Tea","Coffee"]''))
      ''Animals'') = [String ''Tea'', String ''Coffee'']\<close>
proof -
  let ?req = "\<lparr>url = apiUrl ''secret'', http_method = ''POST'', prompt_category = ''Animals''\<rparr>"
  have ctx: "\<And>t. Some ''secret'' = Some ''secret'' \<and> ''secret'' \<noteq> []
      \<and> always (answer t) ?req = Resolved \<lparr>ok = True, status = 200, json = Inr (envelope t)\<rparr>
      \<and> ok \<lparr>ok = True, status = 200, json = Inr (envelope t)\<rparr>
      \<and> json \<lparr>ok = True, status = 200, json = Inr (envelope t)\<rparr> = Inr (envelope t)"
    by (simp add: always_def answer_def)
  have env: "\<And>t. envelope_ok stub_runtime (envelope t) = Inr True
      \<and> jsonString_of stub_runtime (envelope t) = Inr (String t)"
    by (simp add: envelope_ok_envelope jsonString_of_envelope)
  have p3: \<open>JSON_parse stub_runtime (String ''["a","b","c"]'')
              = Inr (Array [String ''a'', String ''b'', String ''c''])
            \<and> (\<forall>a b. Array [String ''a'', String ''b'', String ''c''] \<noteq> Array [String a, String b])\<close>
    by (simp add: stub_runtime_def stub_parse_def)
  have pn: \<open>JSON_parse stub_runtime (String ''[1,2]'') = Inr (Array [Number 1, Number 2])
            \<and> (\<forall>a b. Array [Number 1, Number 2] \<noteq> Array [String a, String b])\<close>
    by (simp add: stub_runtime_def stub_parse_def)
  have pe: "JSON_parse stub_runtime (String ''not json'') = Inl (SyntaxError ''Unexpected token'')"
    by (simp add: stub_runtime_def stub_parse_def)
  have pt: \<open>JSON_parse stub_runtime (String ''["Tea","Coffee"]'')
              = Inr (Array [String ''Tea'', String ''Coffee''])\<close>
    by (simp add: stub_runtime_def stub_parse_def)
  note T3 = accepted_iff_two_strings [of stub_runtime "Some ''secret''"
      \<open>always (answer ''["a","b","c"]'')\<close> "''Animals''",
      THEN conjunct2, THEN conjunct1, rule_format, OF ctx]
  note Tn = accepted_iff_two_strings [of stub_runtime "Some ''secret''"
      \<open>always (answer ''[1,2]'')\<close> "''Animals''",
      THEN conjunct2, THEN conjunct1, rule_format, OF ctx]
  note Te = accepted_iff_two_strings [of stub_runtime "Some ''secret''"
      \<open>always (answer ''not json'')\<close> "''Animals''",
      THEN conjunct2, THEN conjunct1, rule_format, OF ctx]
  note Tt = accepted_iff_two_strings [of stub_runtime "Some ''secret''"
      \<open>always (answer ''["Tea","Coffee"]'')\<close> "''Animals''",
      THEN conjunct2, THEN conjunct1, rule_format, OF ctx]
  have c0: "Some ''secret'' = Some ''secret'' \<and> ''secret'' \<noteq> []
      \<and> always (Resolved \<lparr>ok = True, status = 200,
                            json = Inr (Object [(''candidates'', Array [])])\<rparr>) ?req
          = Resolved \<lparr>ok = True, status = 200, json = Inr (Object [(''candidates'', Array [])])\<rparr>
      \<and> ok \<lparr>ok = True, status = 200, json = Inr (Object [(''candidates'', Array [])])\<rparr>
      \<and> json \<lparr>ok = True, status = 200, json = Inr (Object [(''candidates'', Array [])])\<rparr>
          = Inr (Object [(''candidates'', Array [])])"
    by (simp add: always_def)
  note T0 = accepted_iff_two_strings [of stub_runtime "Some ''secret''"
      "always (Resolved \<lparr>ok = True, status = 200,
                            json = Inr (Object [(''candidates'', Array [])])\<rparr>)" "''Animals''",
      THEN conjunct2, THEN conjunct1, rule_format, OF c0]
  have m0: "member stub_runtime (Object [(''candidates'', Array [])]) ''candidates'' = Inr (Array [])
      \<and> (\<not> truthy (Array []) \<or> Array [] = Array [])"
    by simp
  have q3: \<open>envelope_ok stub_runtime (envelope ''["a","b","c"]'') = Inr True
      \<and> jsonString_of stub_runtime (envelope ''["a","b","c"]'') = Inr (String ''["a","b","c"]'')
      \<and> JSON_parse stub_runtime (String ''["a","b","c"]'')
           = Inr (Array [String ''a'', String ''b'', String ''c''])
      \<and> (\<forall>a b. Array [String ''a'', String ''b'', String ''c''] \<noteq> Array [String a, String b])\<close>
    using env p3 by simp
  note r3 = T3 [THEN conjunct2, THEN conjunct1, rule_format, OF q3]
  have qn: \<open>envelope_ok stub_runtime (envelope ''[1,2]'') = Inr True
      \<and> jsonString_of stub_runtime (envelope ''[1,2]'') = Inr (String ''[1,2]'')
      \<and> JSON_parse stub_runtime (String ''[1,2]'') = Inr (Array [Number 1, Number 2])
      \<and> (\<forall>a b. Array [Number 1, Number 2] \<noteq> Array [String a, String b])\<close>
    using env pn by simp
  note rn = Tn [THEN conjunct2, THEN conjunct1, rule_format, OF qn, THEN conjunct1]
  have qe: "envelope_ok stub_runtime (envelope ''not json'') = Inr True
      \<and> jsonString_of stub_runtime (envelope ''not json'') = Inr (String ''not json'')
      \<and> JSON_parse stub_runtime (String ''not json'') = Inl (SyntaxError ''Unexpected token'')"
    using env pe by simp
  note re = Te [THEN conjunct2, THEN conjunct2, THEN conjunct1, rule_format, OF qe, THEN conjunct1]
  note r0 = T0 [THEN conjunct2, THEN conjunct2, THEN conjunct2, THEN conjunct1, rule_format,
      OF m0, THEN conjunct1]
  have qt: \<open>envelope_ok stub_runtime (envelope ''["Tea","Coffee"]'') = Inr True
      \<and> jsonString_of stub_runtime (envelope ''["Tea","Coffee"]'')
           = Inr (String ''["Tea","Coffee"]'')
      \<and> JSON_parse stub_runtime (String ''["Tea","Coffee"]'')
           = Inr (Array [String ''Tea'', String ''Coffee''])\<close>
    using env pt by simp
  note rt = Tt [THEN conjunct1, rule_format, OF qt]
  from r3 rn re r0 rt show ?thesis by simp
qed

text \<open>
  The claim as written also counts an empty string element as a validation failure. The
  check on the elements is \<^verbatim>\<open>typeof ... === 'string'\<close> only: the payload
  \<^verbatim>\<open>["","Coffee"]\<close> is returned as it is and no error is reported.
\<close>

theorem empty_element_accepted:
  \<open>caught (fetchOptionsFromAI stub_runtime (Some ''secret'') (always (answer ''["","Coffee"]''))
      ''Food & Drink'') = None
   \<and> returned (fetchOptionsFromAI stub_runtime (Some ''secret'') (always (answer ''["","Coffee"]''))
      ''Food & Drink'') = [String [], String ''Coffee'']\<close>
  by (simp add: fetchOptionsFromAI_def client_eval)

section \<open>Selecting a category\<close>

text \<open>
  Claim C3, amended. In every state: selecting the category of the entry at the cursor
  (cursor not \<open>-1\<close>) starts no generation and changes nothing but the selected category;
  selecting a category other than the selected one, where the entry at the cursor is
  absent or has another category than the new one, starts exactly one call of
  \<^verbatim>\<open>handleGenerateNew\<close> with the argument \<^verbatim>\<open>historyIndex === -1\<close>; selecting the category
  that is already selected does nothing, whatever the entry at the cursor. The first
  render starts one call with the argument \<^verbatim>\<open>true\<close>.
\<close>

theorem selection_trigger:
  "(\<forall>q. historyIndex (state a) \<noteq> - 1
        \<and> history_at (history (state a)) (historyIndex (state a)) = Some q
        \<and> category q = c \<longrightarrow>
        step rt apiKey a (SelectCategory c) =
          a\<lparr>state := (state a)
              \<lparr>selectedCategory := (if c \<in> set categories then c
                                     else selectedCategory (state a))\<rparr>\<rparr>)
   \<and> (c \<in> set categories \<and> c \<noteq> selectedCategory (state a)
        \<and> (history_at (history (state a)) (historyIndex (state a)) = None
            \<or> (\<exists>q. history_at (history (state a)) (historyIndex (state a)) = Some q
                   \<and> category q \<noteq> c)) \<longrightarrow>
        step rt apiKey a (SelectCategory c) =
          \<lparr>state = (state a)\<lparr>selectedCategory := c, isLoading := True, error := []\<rparr>,
           in_flight = in_flight a @
             [\<lparr>captured_selectedCategory = c,
               captured_historyIndex = historyIndex (state a),
               initialLoad = Boolean (historyIndex (state a) = - 1)\<rparr>]\<rparr>)
   \<and> (c = selectedCategory (state a) \<longrightarrow> step rt apiKey a (SelectCategory c) = a)
   \<and> mount =
        \<lparr>state = initial_session\<lparr>isLoading := True\<rparr>,
         in_flight = [\<lparr>captured_selectedCategory = ''Everyday Life'',
                       captured_historyIndex = - 1, initialLoad = Boolean True\<rparr>]\<rparr>"
proof (intro conjI allI impI)
  fix q
  assume h: "historyIndex (state a) \<noteq> - 1
        \<and> history_at (history (state a)) (historyIndex (state a)) = Some q
        \<and> category q = c"
  then have "regeneration_effect ((state a)\<lparr>selectedCategory := c\<rparr>) = None"
    by (simp add: regeneration_effect_def)
  then show "step rt apiKey a (SelectCategory c) =
          a\<lparr>state := (state a)
              \<lparr>selectedCategory := (if c \<in> set categories then c
                                     else selectedCategory (state a))\<rparr>\<rparr>"
    by (simp add: run_effect_none)
next
  assume h: "c \<in> set categories \<and> c \<noteq> selectedCategory (state a)
        \<and> (history_at (history (state a)) (historyIndex (state a)) = None
            \<or> (\<exists>q. history_at (history (state a)) (historyIndex (state a)) = Some q
                   \<and> category q \<noteq> c))"
  let ?a = "a\<lparr>state := (state a)\<lparr>selectedCategory := c\<rparr>\<rparr>"
  from h have "regeneration_effect (state ?a) = Some (Boolean (historyIndex (state a) = - 1))"
    by (auto simp: regeneration_effect_def)
  from run_effect_some [OF this] h
  show "step rt apiKey a (SelectCategory c) =
          \<lparr>state = (state a)\<lparr>selectedCategory := c, isLoading := True, error := []\<rparr>,
           in_flight = in_flight a @
             [\<lparr>captured_selectedCategory = c,
               captured_historyIndex = historyIndex (state a),
               initialLoad = Boolean (historyIndex (state a) = - 1)\<rparr>]\<rparr>"
    by (simp add: default_false_def)
next
  assume "c = selectedCategory (state a)"
  then show "step rt apiKey a (SelectCategory c) = a" by simp
next
  show "mount =
        \<lparr>state = initial_session\<lparr>isLoading := True\<rparr>,
         in_flight = [\<lparr>captured_selectedCategory = ''Everyday Life'',
                       captured_historyIndex = - 1, initialLoad = Boolean True\<rparr>]\<rparr>"
    by (simp add: mount_def run_effect_def regeneration_effect_def history_at_def
          initial_session_def handleGenerateNew_call_def default_false_def)
qed

theorem selection_trigger_witness:
  \<open>step stub_runtime (Some ''secret'')
      (run stub_runtime (Some ''secret'') mount
         [Settle 0 (answer ''["Tea","Coffee"]''), SelectCategory ''Superpowers'',
          Settle 0 (Rejected (TypeError ''Failed to fetch''))])
      (SelectCategory ''Everyday Life'') =
     \<lparr>state =
        \<lparr>selectedCategory = ''Everyday Life'', optionA = String [],
         optionB = String [], isLoading = False,
         error = ''Failed to fetch options: Failed to fetch. Please check your network or API key configuration.'',
         history = [\<lparr>category = ''Everyday Life'', question_optionA = String ''Tea'',
                     question_optionB = String ''Coffee''\<rparr>],
         historyIndex = 0\<rparr>,
      in_flight = []\<rparr>
   \<and> step stub_runtime (Some ''secret'')
      (run stub_runtime (Some ''secret'') mount
         [Settle 0 (answer ''["Tea","Coffee"]''), SelectCategory ''Superpowers'',
          Settle 0 (Rejected (TypeError ''Failed to fetch''))])
      (SelectCategory ''Animals'') =
     \<lparr>state =
        \<lparr>selectedCategory = ''Animals'', optionA = String [],
         optionB = String [], isLoading = True, error = [],
         history = [\<lparr>category = ''Everyday Life'', question_optionA = String ''Tea'',
                     question_optionB = String ''Coffee''\<rparr>],
         historyIndex = 0\<rparr>,
      in_flight = [\<lparr>captured_selectedCategory = ''Animals'', captured_historyIndex = 0,
                    initialLoad = Boolean False\<rparr>]\<rparr>
   \<and> step stub_runtime (Some ''secret'')
      (run stub_runtime (Some ''secret'') mount
         [Settle 0 (Rejected (TypeError ''Failed to fetch''))])
      (SelectCategory ''Animals'') =
     \<lparr>state =
        \<lparr>selectedCategory = ''Animals'', optionA = String [],
         optionB = String [], isLoading = True, error = [],
         history = [], historyIndex = - 1\<rparr>,
      in_flight = [\<lparr>captured_selectedCategory = ''Animals'', captured_historyIndex = - 1,
                    initialLoad = Boolean True\<rparr>]\<rparr>\<close>
proof -
  let ?A = \<open>run stub_runtime (Some ''secret'') mount
         [Settle 0 (answer ''["Tea","Coffee"]''), SelectCategory ''Superpowers'',
          Settle 0 (Rejected (TypeError ''Failed to fetch''))]\<close>
  let ?B = "run stub_runtime (Some ''secret'') mount
         [Settle 0 (Rejected (TypeError ''Failed to fetch''))]"
  have p1: "historyIndex (state ?A) \<noteq> - 1
        \<and> history_at (history (state ?A)) (historyIndex (state ?A))
            = Some \<lparr>category = ''Everyday Life'', question_optionA = String ''Tea'',
                     question_optionB = String ''Coffee''\<rparr>
        \<and> category \<lparr>category = ''Everyday Life'', question_optionA = String ''Tea'',
                     question_optionB = String ''Coffee''\<rparr> = ''Everyday Life''"
    unfolding after_failed_change by (simp add: history_at_def)
  have p2: "''Animals'' \<in> set categories \<and> ''Animals'' \<noteq> selectedCategory (state ?A)
        \<and> (history_at (history (state ?A)) (historyIndex (state ?A)) = None
            \<or> (\<exists>q. history_at (history (state ?A)) (historyIndex (state ?A)) = Some q
                   \<and> category q \<noteq> ''Animals''))"
    unfolding after_failed_change by (simp add: history_at_def categories_def)
  have p3: "''Animals'' \<in> set categories \<and> ''Animals'' \<noteq> selectedCategory (state ?B)
        \<and> (history_at (history (state ?B)) (historyIndex (state ?B)) = None
            \<or> (\<exists>q. history_at (history (state ?B)) (historyIndex (state ?B)) = Some q
                   \<and> category q \<noteq> ''Animals''))"
    unfolding after_failed_first_load by (simp add: history_at_def categories_def)
  have c: "''Everyday Life'' \<in> set categories" by (simp add: categories_def)
  note W1 = selection_trigger [of ?A "''Everyday Life''" stub_runtime "Some ''secret''",
      THEN conjunct1, rule_format, OF p1]
  note W2 = selection_trigger [of ?A "''Animals''" stub_runtime "Some ''secret''",
      THEN conjunct2, THEN conjunct1, rule_format, OF p2]
  note W3 = selection_trigger [of ?B "''Animals''" stub_runtime "Some ''secret''",
      THEN conjunct2, THEN conjunct1, rule_format, OF p3]
  have r1: "step stub_runtime (Some ''secret'') ?A (SelectCategory ''Everyday Life'') =
     \<lparr>state =
        \<lparr>selectedCategory = ''Everyday Life'', optionA = String [],
         optionB = String [], isLoading = False,
         error = ''Failed to fetch options: Failed to fetch. Please check your network or API key configuration.'',
         history = [\<lparr>category = ''Everyday Life'', question_optionA = String ''Tea'',
                     question_optionB = String ''Coffee''\<rparr>],
         historyIndex = 0\<rparr>,
      in_flight = []\<rparr>"
    unfolding W1 unfolding after_failed_change using c by simp
  have r2: "step stub_runtime (Some ''secret'') ?A (SelectCategory ''Animals'') =
     \<lparr>state =
        \<lparr>selectedCategory = ''Animals'', optionA = String [],
         optionB = String [], isLoading = True, error = [],
         history = [\<lparr>category = ''Everyday Life'', question_optionA = String ''Tea'',
                     question_optionB = String ''Coffee''\<rparr>],
         historyIndex = 0\<rparr>,
      in_flight = [\<lparr>captured_selectedCategory = ''Animals'', captured_historyIndex = 0,
                    initialLoad = Boolean False\<rparr>]\<rparr>"
    unfolding W2 unfolding after_failed_change by simp
  have r3: "step stub_runtime (Some ''secret'') ?B (SelectCategory ''Animals'') =
     \<lparr>state =
        \<lparr>selectedCategory = ''Animals'', optionA = String [],
         optionB = String [], isLoading = True, error = [],
         history = [], historyIndex = - 1\<rparr>,
      in_flight = [\<lparr>captured_selectedCategory = ''Animals'', captured_historyIndex = - 1,
                    initialLoad = Boolean True\<rparr>]\<rparr>"
    unfolding W3 unfolding after_failed_first_load by simp
  from r1 r2 r3 show ?thesis by (intro conjI)
qed

text \<open>
  The claim as written has a generation started wherever the entry at the cursor is absent
  or of another category and nothing is loading. After a failed generation that is the
  state of the session, and it stays so: the effect does not run again, and selecting the
  selected category once more causes no render. The runs below are the failed first load
  (no entry at the cursor) and a failed category change (the entry at the cursor has
  another category), each followed by the selection of the selected category.
\<close>

theorem reselection_starts_nothing:
  \<open>run stub_runtime (Some ''secret'') mount
     [Settle 0 (Rejected (TypeError ''Failed to fetch''))] =
     \<lparr>state =
        \<lparr>selectedCategory = ''Everyday Life'', optionA = String [],
         optionB = String [], isLoading = False,
         error = ''Failed to fetch options: Failed to fetch. Please check your network or API key configuration.'',
         history = [], historyIndex = - 1\<rparr>,
      in_flight = []\<rparr>
   \<and> run stub_runtime (Some ''secret'') mount
     [Settle 0 (Rejected (TypeError ''Failed to fetch'')), SelectCategory ''Everyday Life''] =
     \<lparr>state =
        \<lparr>selectedCategory = ''Everyday Life'', optionA = String [],
         optionB = String [], isLoading = False,
         error = ''Failed to fetch options: Failed to fetch. Please check your network or API key configuration.'',
         history = [], historyIndex = - 1\<rparr>,
      in_flight = []\<rparr>
   \<and> run stub_runtime (Some ''secret'') mount
     [Settle 0 (answer ''["Tea","Coffee"]''), SelectCategory ''Superpowers'',
      Settle 0 (Rejected (TypeError ''Failed to fetch'')), SelectCategory ''Superpowers''] =
     \<lparr>state =
        \<lparr>selectedCategory = ''Superpowers'', optionA = String [],
         optionB = String [], isLoading = False,
         error = ''Failed to fetch options: Failed to fetch. Please check your network or API key configuration.'',
         history = [\<lparr>category = ''Everyday Life'', question_optionA = String ''Tea'',
                     question_optionB = String ''Coffee''\<rparr>],
         historyIndex = 0\<rparr>,
      in_flight = []\<rparr>\<close>
  by (simp add: app_eval failure_text_def)

section \<open>A category change while another call waits\<close>

text \<open>
  Claim C4. After a category change away from the category of the entry at the cursor, a
  successful generation that is not an initial load is meant to keep the first
  \<open>cursor + 1\<close> entries, append the new one and leave the cursor at the new last index;
  from a cursor of 2 in a history of 3 that is 4 entries and the cursor 3. The run below
  reaches a cursor of 2 in a history of 3 with nothing loading and one call still waiting
  (two categories were selected in a row and the first of the two calls failed). The user
  selects a new category; the waiting call succeeds, then the new one: the history is the
  first three entries and the new one, but the cursor is 4, past the last index 3.
\<close>

theorem stale_call_moves_cursor_past_end:
  \<open>run stub_runtime (Some ''secret'') mount
     [Settle 0 (answer ''["Tea","Coffee"]''), SelectCategory ''Superpowers'',
      Settle 0 (answer ''["Fly","Swim"]''), SelectCategory ''Animals'',
      Settle 0 (answer ''["Cat","Dog"]''), SelectCategory ''Food & Drink'',
      SelectCategory ''Relationships'', Settle 0 (Rejected (TypeError ''Failed to fetch''))] =
     \<lparr>state =
        \<lparr>selectedCategory = ''Relationships'', optionA = String [],
         optionB = String [], isLoading = False,
         error = ''Failed to fetch options: Failed to fetch. Please check your network or API key configuration.'',
         history =
           [\<lparr>category = ''Everyday Life'', question_optionA = String ''Tea'',
              question_optionB = String ''Coffee''\<rparr>,
            \<lparr>category = ''Superpowers'', question_optionA = String ''Fly'',
              question_optionB = String ''Swim''\<rparr>,
            \<lparr>category = ''Animals'', question_optionA = String ''Cat'',
              question_optionB = String ''Dog''\<rparr>],
         historyIndex = 2\<rparr>,
      in_flight = [\<lparr>captured_selectedCategory = ''Relationships'', captured_historyIndex = 2,
                    initialLoad = Boolean False\<rparr>]\<rparr>
   \<and> history (state (run stub_runtime (Some ''secret'') mount
     [Settle 0 (answer ''["Tea","Coffee"]''), SelectCategory ''Superpowers'',
      Settle 0 (answer ''["Fly","Swim"]''), SelectCategory ''Animals'',
      Settle 0 (answer ''["Cat","Dog"]''), SelectCategory ''Food & Drink'',
      SelectCategory ''Relationships'', Settle 0 (Rejected (TypeError ''Failed to fetch'')),
      SelectCategory ''Past or Future'', Settle 0 (answer ''["Tea","Coffee"]''),
      Settle 0 (answer ''["Fly","Swim"]'')])) =
     [\<lparr>category = ''Everyday Life'', question_optionA = String ''Tea'',
        question_optionB = String ''Coffee''\<rparr>,
      \<lparr>category = ''Superpowers'', question_optionA = String ''Fly'',
        question_optionB = String ''Swim''\<rparr>,
      \<lparr>category = ''Animals'', question_optionA = String ''Cat'',
        question_optionB = String ''Dog''\<rparr>,
      \<lparr>category = ''Past or Future'', question_optionA = String ''Fly'',
        question_optionB = String ''Swim''\<rparr>]
   \<and> historyIndex (state (run stub_runtime (Some ''secret'') mount
     [Settle 0 (answer ''["Tea","Coffee"]''), SelectCategory ''Superpowers'',
      Settle 0 (answer ''["Fly","Swim"]''), SelectCategory ''Animals'',
      Settle 0 (answer ''["Cat","Dog"]''), SelectCategory ''Food & Drink'',
      SelectCategory ''Relationships'', Settle 0 (Rejected (TypeError ''Failed to fetch'')),
      SelectCategory ''Past or Future'', Settle 0 (answer ''["Tea","Coffee"]''),
      Settle 0 (answer ''["Fly","Swim"]'')])) = 4\<close>
  by (simp add: app_eval failure_text_def)

section \<open>The ``Previous Question'' button\<close>

text \<open>
  Claim C5. The ``previous'' action is meant to do nothing while the cursor is at most 0
  or a generation is in flight, and otherwise to lower the cursor by exactly one and show
  the entry there. The first run below ends with nothing loading, no call waiting and the
  cursor at 3 in a history of 2 (three categories were selected in a row during one
  generation): the button is enabled, \<^verbatim>\<open>history[2]\<close> is absent, the handler throws and
  nothing changes. The second run ends with \<^verbatim>\<open>isLoading\<close> false while a call still waits
  (of two overlapping calls one has failed): the button is enabled and moves the cursor.
\<close>

theorem previous_with_cursor_past_end:
  \<open>run stub_runtime (Some ''secret'') mount
     [Settle 0 (answer ''["Tea","Coffee"]''), SelectCategory ''Superpowers'',
      SelectCategory ''Animals'', SelectCategory ''Food & Drink'',
      Settle 0 (answer ''["Fly","Swim"]''), Settle 0 (answer ''["Cat","Dog"]''),
      Settle 0 (answer ''["Tea","Coffee"]''),
      Settle 0 (Rejected (TypeError ''Failed to fetch'')),
      Settle 0 (Rejected (TypeError ''Failed to fetch'')),
      Settle 0 (Rejected (TypeError ''Failed to fetch''))] =
     \<lparr>state =
        \<lparr>selectedCategory = ''Food & Drink'', optionA = String [],
         optionB = String [], isLoading = False,
         error = ''Failed to fetch options: Failed to fetch. Please check your network or API key configuration.'',
         history =
           [\<lparr>category = ''Everyday Life'', question_optionA = String ''Tea'',
              question_optionB = String ''Coffee''\<rparr>,
            \<lparr>category = ''Food & Drink'', question_optionA = String ''Tea'',
              question_optionB = String ''Coffee''\<rparr>],
         historyIndex = 3\<rparr>,
      in_flight = []\<rparr>
   \<and> run stub_runtime (Some ''secret'') mount
     [Settle 0 (answer ''["Tea","Coffee"]''), SelectCategory ''Superpowers'',
      SelectCategory ''Animals'', SelectCategory ''Food & Drink'',
      Settle 0 (answer ''["Fly","Swim"]''), Settle 0 (answer ''["Cat","Dog"]''),
      Settle 0 (answer ''["Tea","Coffee"]''),
      Settle 0 (Rejected (TypeError ''Failed to fetch'')),
      Settle 0 (Rejected (TypeError ''Failed to fetch'')),
      Settle 0 (Rejected (TypeError ''Failed to fetch'')), ClickPrevious] =
     run stub_runtime (Some ''secret'') mount
     [Settle 0 (answer ''["Tea","Coffee"]''), SelectCategory ''Superpowers'',
      SelectCategory ''Animals'', SelectCategory ''Food & Drink'',
      Settle 0 (answer ''["Fly","Swim"]''), Settle 0 (answer ''["Cat","Dog"]''),
      Settle 0 (answer ''["Tea","Coffee"]''),
      Settle 0 (Rejected (TypeError ''Failed to fetch'')),
      Settle 0 (Rejected (TypeError ''Failed to fetch'')),
      Settle 0 (Rejected (TypeError ''Failed to fetch''))]
   \<and> run stub_runtime (Some ''secret'') mount
     [Settle 0 (answer ''["Tea","Coffee"]''), SelectCategory ''Superpowers'',
      Settle 0 (answer ''["Fly","Swim"]''), SelectCategory ''Animals'',
      SelectCategory ''Food & Drink'', Settle 0 (Rejected (TypeError ''Failed to fetch''))] =
     \<lparr>state =
        \<lparr>selectedCategory = ''Food & Drink'', optionA = String [],
         optionB = String [], isLoading = False,
         error = ''Failed to fetch options: Failed to fetch. Please check your network or API key configuration.'',
         history =
           [\<lparr>category = ''Everyday Life'', question_optionA = String ''Tea'',
              question_optionB = String ''Coffee''\<rparr>,
            \<lparr>category = ''Superpowers'', question_optionA = String ''Fly'',
              question_optionB = String ''Swim''\<rparr>],
         historyIndex = 1\<rparr>,
      in_flight = [\<lparr>captured_selectedCategory = ''Food & Drink'', captured_historyIndex = 1,
                    initialLoad = Boolean False\<rparr>]\<rparr>
   \<and> run stub_runtime (Some ''secret'') mount
     [Settle 0 (answer ''["Tea","Coffee"]''), SelectCategory ''Superpowers'',
      Settle 0 (answer ''["Fly","Swim"]''), SelectCategory ''Animals'',
      SelectCategory ''Food & Drink'', Settle 0 (Rejected (TypeError ''Failed to fetch'')),
      ClickPrevious] =
     \<lparr>state =
        \<lparr>selectedCategory = ''Everyday Life'', optionA = String ''Tea'',
         optionB = String ''Coffee'', isLoading = False,
         error = ''Failed to fetch options: Failed to fetch. Please check your network or API key configuration.'',
         history =
           [\<lparr>category = ''Everyday Life'', question_optionA = String ''Tea'',
              question_optionB = String ''Coffee''\<rparr>,
            \<lparr>category = ''Superpowers'', question_optionA = String ''Fly'',
              question_optionB = String ''Swim''\<rparr>],
         historyIndex = 0\<rparr>,
      in_flight = [\<lparr>captured_selectedCategory = ''Food & Drink'', captured_historyIndex = 1,
                    initialLoad = Boolean False\<rparr>]\<rparr>\<close>
  by (simp add: app_eval failure_text_def)

section \<open>A failed generation\<close>

text \<open>
  Claim C6, amended. For every generation that fails, that is both returned strings are
  empty: when its answer arrives the displayed pair becomes two empty strings and
  \<^verbatim>\<open>isLoading\<close> false, while the history, the cursor and the selected category are
  unchanged, as they are when a generation is started; the error text becomes the message
  of the client's \<^verbatim>\<open>catch\<close> handler when the client reported an error, and is not touched
  when it reported none. A second failed attempt still leaves the history and the cursor
  as they were before the first. When no other call is waiting, a click on ``Next
  Question'' followed by a failing answer ends with the client's message as the error
  text, or with the empty text when the client reported none.
\<close>

theorem failed_generation_keeps_history:
  "(\<forall>n. n < length (in_flight a)
        \<and> \<not> truthy (element (returned (fetchOptionsFromAI rt apiKey (always out)
                 (captured_selectedCategory (in_flight a ! n)))) 0)
        \<and> \<not> truthy (element (returned (fetchOptionsFromAI rt apiKey (always out)
                 (captured_selectedCategory (in_flight a ! n)))) 1) \<longrightarrow>
        state (step rt apiKey a (Settle n out)) =
          (state a)
            \<lparr>error := (case caught (fetchOptionsFromAI rt apiKey (always out)
                                 (captured_selectedCategory (in_flight a ! n))) of
                          None \<Rightarrow> error (state a) | Some m \<Rightarrow> m),
             optionA := String [], optionB := String [], isLoading := False\<rparr>
        \<and> in_flight (step rt apiKey a (Settle n out))
            = take n (in_flight a) @ drop (Suc n) (in_flight a)
        \<and> (\<forall>e. fst (try_block rt apiKey (always out)
                       (captured_selectedCategory (in_flight a ! n))) = Inl e \<longrightarrow>
              error (state (step rt apiKey a (Settle n out))) =
                ''Failed to fetch options: '' @ message e
                  @ ''. Please check your network or API key configuration.'')
        \<and> (\<forall>n' out'. n' < length (in_flight (step rt apiKey a (Settle n out)))
              \<and> \<not> truthy (element (returned (fetchOptionsFromAI rt apiKey (always out')
                     (captured_selectedCategory
                        (in_flight (step rt apiKey a (Settle n out)) ! n')))) 0)
              \<and> \<not> truthy (element (returned (fetchOptionsFromAI rt apiKey (always out')
                     (captured_selectedCategory
                        (in_flight (step rt apiKey a (Settle n out)) ! n')))) 1) \<longrightarrow>
              history (state (step rt apiKey (step rt apiKey a (Settle n out)) (Settle n' out')))
                = history (state a)
              \<and> historyIndex
                   (state (step rt apiKey (step rt apiKey a (Settle n out)) (Settle n' out')))
                = historyIndex (state a)))
   \<and> history (state (step rt apiKey a ClickNext)) = history (state a)
   \<and> historyIndex (state (step rt apiKey a ClickNext)) = historyIndex (state a)
   \<and> history (state (step rt apiKey a (SelectCategory c))) = history (state a)
   \<and> historyIndex (state (step rt apiKey a (SelectCategory c))) = historyIndex (state a)
   \<and> (in_flight a = [] \<and> \<not> isLoading (state a)
        \<and> \<not> truthy (element (returned (fetchOptionsFromAI rt apiKey (always out)
                 (selectedCategory (state a)))) 0)
        \<and> \<not> truthy (element (returned (fetchOptionsFromAI rt apiKey (always out)
                 (selectedCategory (state a)))) 1) \<longrightarrow>
        run rt apiKey a [ClickNext, Settle 0 out] =
          \<lparr>state = (state a)
             \<lparr>error := (case caught (fetchOptionsFromAI rt apiKey (always out)
                                  (selectedCategory (state a))) of
                           None \<Rightarrow> [] | Some m \<Rightarrow> m),
              optionA := String [], optionB := String [], isLoading := False\<rparr>,
           in_flight = []\<rparr>)"
proof (intro conjI allI impI)
  fix n
  assume h: "n < length (in_flight a)
        \<and> \<not> truthy (element (returned (fetchOptionsFromAI rt apiKey (always out)
                 (captured_selectedCategory (in_flight a ! n)))) 0)
        \<and> \<not> truthy (element (returned (fetchOptionsFromAI rt apiKey (always out)
                 (captured_selectedCategory (in_flight a ! n)))) 1)"
  let ?r = "fetchOptionsFromAI rt apiKey (always out) (captured_selectedCategory (in_flight a ! n))"
  from h have ret: "returned ?r = [String [], String []]"
    using falsy_strings by blast
  note st = settle_failed [OF conjunct1 [OF h] ret]
  show s1: "state (step rt apiKey a (Settle n out)) =
          (state a)\<lparr>error := (case caught ?r of None \<Rightarrow> error (state a) | Some m \<Rightarrow> m),
             optionA := String [], optionB := String [], isLoading := False\<rparr>"
    by (simp add: st)
  show "in_flight (step rt apiKey a (Settle n out))
            = take n (in_flight a) @ drop (Suc n) (in_flight a)"
    by (simp add: st)
  {
    fix e
    assume "fst (try_block rt apiKey (always out) (captured_selectedCategory (in_flight a ! n)))
              = Inl e"
    from fetch_failure [OF this] show "error (state (step rt apiKey a (Settle n out))) =
                ''Failed to fetch options: '' @ message e
                  @ ''. Please check your network or API key configuration.''"
      by (simp add: st failure_text_def)
  }
  {
    fix n' out'
    let ?a' = "step rt apiKey a (Settle n out)"
    let ?r' = "fetchOptionsFromAI rt apiKey (always out') (captured_selectedCategory (in_flight ?a' ! n'))"
    assume h': "n' < length (in_flight ?a')
              \<and> \<not> truthy (element (returned ?r') 0) \<and> \<not> truthy (element (returned ?r') 1)"
    then have ret': "returned ?r' = [String [], String []]"
      using falsy_strings by blast
    have st': "step rt apiKey ?a' (Settle n' out') =
           \<lparr>state = (state ?a')
              \<lparr>error := (case caught ?r' of None \<Rightarrow> error (state ?a') | Some m \<Rightarrow> m),
               optionA := String [], optionB := String [], isLoading := False\<rparr>,
            in_flight = take n' (in_flight ?a') @ drop (Suc n') (in_flight ?a')\<rparr>"
      using settle_failed [OF conjunct1 [OF h'] ret'] by simp
    show "history (state (step rt apiKey ?a' (Settle n' out'))) = history (state a)"
      unfolding st' by (simp add: st)
    show "historyIndex (state (step rt apiKey ?a' (Settle n' out'))) = historyIndex (state a)"
      unfolding st' by (simp add: st)
  }
next
  show "history (state (step rt apiKey a ClickNext)) = history (state a)"
    "historyIndex (state (step rt apiKey a ClickNext)) = historyIndex (state a)"
    "history (state (step rt apiKey a (SelectCategory c))) = history (state a)"
    "historyIndex (state (step rt apiKey a (SelectCategory c))) = historyIndex (state a)"
    using start_keeps_history [of rt apiKey a c] by blast+
next
  assume h: "in_flight a = [] \<and> \<not> isLoading (state a)
        \<and> \<not> truthy (element (returned (fetchOptionsFromAI rt apiKey (always out)
                 (selectedCategory (state a)))) 0)
        \<and> \<not> truthy (element (returned (fetchOptionsFromAI rt apiKey (always out)
                 (selectedCategory (state a)))) 1)"
  let ?r = "fetchOptionsFromAI rt apiKey (always out) (selectedCategory (state a))"
  from h have ret: "returned ?r = [String [], String []]"
    using falsy_strings by blast
  from h have "in_flight a = []" and "\<not> isLoading (state a)"
    by simp_all
  from this ret show "run rt apiKey a [ClickNext, Settle 0 out] =
          \<lparr>state = (state a)
             \<lparr>error := (case caught ?r of None \<Rightarrow> [] | Some m \<Rightarrow> m),
              optionA := String [], optionB := String [], isLoading := False\<rparr>,
           in_flight = []\<rparr>"
    by (rule next_then_settle_failed)
qed

theorem failed_generation_keeps_history_witness:
  \<open>step stub_runtime (Some ''secret'')
      (run stub_runtime (Some ''secret'') mount [Settle 0 (answer ''["Tea","Coffee"]''), ClickNext])
      (Settle 0 (Rejected (TypeError ''Failed to fetch''))) =
     \<lparr>state =
        \<lparr>selectedCategory = ''Everyday Life'', optionA = String [],
         optionB = String [], isLoading = False,
         error = ''Failed to fetch options: Failed to fetch. Please check your network or API key configuration.'',
         history = [\<lparr>category = ''Everyday Life'', question_optionA = String ''Tea'',
                     question_optionB = String ''Coffee''\<rparr>],
         historyIndex = 0\<rparr>,
      in_flight = []\<rparr>\<close>
proof -
  let ?A = \<open>run stub_runtime (Some ''secret'') mount [Settle 0 (answer ''["Tea","Coffee"]''), ClickNext]\<close>
  let ?out = "Rejected (TypeError ''Failed to fetch'')"
  have prem: "0 < length (in_flight ?A)
      \<and> \<not> truthy (element (returned (fetchOptionsFromAI stub_runtime (Some ''secret'') (always ?out)
               (captured_selectedCategory (in_flight ?A ! 0)))) 0)
      \<and> \<not> truthy (element (returned (fetchOptionsFromAI stub_runtime (Some ''secret'') (always ?out)
               (captured_selectedCategory (in_flight ?A ! 0)))) 1)"
    unfolding after_first_load_next by (simp add: stub_rejected element_def)
  note W = failed_generation_keeps_history [of ?A stub_runtime "Some ''secret''" ?out,
      THEN conjunct1, rule_format, OF prem]
  have s: "state (step stub_runtime (Some ''secret'') ?A (Settle 0 ?out)) =
      \<lparr>selectedCategory = ''Everyday Life'', optionA = String [],
         optionB = String [], isLoading = False,
         error = ''Failed to fetch options: Failed to fetch. Please check your network or API key configuration.'',
         history = [\<lparr>category = ''Everyday Life'', question_optionA = String ''Tea'',
                     question_optionB = String ''Coffee''\<rparr>],
         historyIndex = 0\<rparr>"
    unfolding W [THEN conjunct1] unfolding after_first_load_next by (simp add: stub_rejected)
  have i: "in_flight (step stub_runtime (Some ''secret'') ?A (Settle 0 ?out)) = []"
    unfolding W [THEN conjunct2, THEN conjunct1] unfolding after_first_load_next by simp
  show ?thesis
    using s i by (cases "step stub_runtime (Some ''secret'') ?A (Settle 0 ?out)") simp
qed

text \<open>
  The claim as written has the error text set after every failed attempt. When the service
  answers with two empty strings the attempt fails (nothing is recorded, the pair is
  cleared), the client reports nothing, and the error text is empty.
\<close>

theorem empty_answer_sets_no_error:
  \<open>caught (fetchOptionsFromAI stub_runtime (Some ''secret'') (always (answer ''["",""]''))
      ''Everyday Life'') = None
   \<and> history (state (run stub_runtime (Some ''secret'') mount
        [Settle 0 (answer ''["Tea","Coffee"]'')]))
     = [\<lparr>category = ''Everyday Life'', question_optionA = String ''Tea'',
         question_optionB = String ''Coffee''\<rparr>]
   \<and> run stub_runtime (Some ''secret'') mount
        [Settle 0 (answer ''["Tea","Coffee"]''), ClickNext, Settle 0 (answer ''["",""]'')] =
     \<lparr>state =
        \<lparr>selectedCategory = ''Everyday Life'', optionA = String [],
         optionB = String [], isLoading = False, error = [],
         history = [\<lparr>category = ''Everyday Life'', question_optionA = String ''Tea'',
                     question_optionB = String ''Coffee''\<rparr>],
         historyIndex = 0\<rparr>,
      in_flight = []\<rparr>\<close>
  by (simp add: app_eval)

section \<open>The cursor invariant\<close>

text \<open>
  Claim C7. The cursor is meant to be \<open>-1\<close> or an index into the history after every
  operation, starting from the initial session. The category buttons stay enabled while
  a generation is loading, so two calls of \<^verbatim>\<open>handleGenerateNew\<close> can wait at once, both
  having captured the same \<^verbatim>\<open>historyIndex\<close>. In the run below the first question is
  loaded, two other categories are selected one after the other, and both generations
  succeed: the second one cuts the history with the index it captured but increments the
  index of that moment, which leaves the cursor at 2 in a history of 2 entries. The
  invariant held before that last step.
\<close>

theorem overlapping_generations_break_cursor:
  \<open>historyIndex (state (run stub_runtime (Some ''secret'') mount
      [Settle 0 (answer ''["Tea","Coffee"]''), SelectCategory ''Superpowers'',
       SelectCategory ''Animals'', Settle 0 (answer ''["Fly","Swim"]''),
       Settle 0 (answer ''["Cat","Dog"]'')])) = 2
   \<and> length (history (state (run stub_runtime (Some ''secret'') mount
      [Settle 0 (answer ''["Tea","Coffee"]''), SelectCategory ''Superpowers'',
       SelectCategory ''Animals'', Settle 0 (answer ''["Fly","Swim"]''),
       Settle 0 (answer ''["Cat","Dog"]'')]))) = 2
   \<and> \<not> cursor_ok (state (run stub_runtime (Some ''secret'') mount
      [Settle 0 (answer ''["Tea","Coffee"]''), SelectCategory ''Superpowers'',
       SelectCategory ''Animals'', Settle 0 (answer ''["Fly","Swim"]''),
       Settle 0 (answer ''["Cat","Dog"]'')]))
   \<and> cursor_ok (state (run stub_runtime (Some ''secret'') mount
      [Settle 0 (answer ''["Tea","Coffee"]''), SelectCategory ''Superpowers'',
       SelectCategory ''Animals'', Settle 0 (answer ''["Fly","Swim"]'')]))\<close>
  by (simp add: app_eval cursor_ok_def)

section \<open>A missing credential\<close>

text \<open>
  Claim C8. When the credential is absent (undefined or empty), a call of the client sends
  no request, reports the missing-credential message through its \<^verbatim>\<open>catch\<close> handler, and
  returns two empty strings; a waiting call that settles shows this message as the
  error text and records nothing.
\<close>

theorem missing_credential:
  assumes "apiKey = None \<or> apiKey = Some []"
  shows "requests (fetchOptionsFromAI rt apiKey fetch c) = []
       \<and> caught (fetchOptionsFromAI rt apiKey fetch c) =
           Some ''Failed to fetch options: GEMINI_API_KEY is not configured. Please set REACT_APP_GEMINI_API_KEY in Netlify environment variables.. Please check your network or API key configuration.''
       \<and> returned (fetchOptionsFromAI rt apiKey fetch c) = [String [], String []]
       \<and> (\<forall>a n out. n < length (in_flight a) \<longrightarrow>
            error (state (step rt apiKey a (Settle n out))) =
              ''Failed to fetch options: GEMINI_API_KEY is not configured. Please set REACT_APP_GEMINI_API_KEY in Netlify environment variables.. Please check your network or API key configuration.''
            \<and> history (state (step rt apiKey a (Settle n out))) = history (state a)
            \<and> historyIndex (state (step rt apiKey a (Settle n out))) = historyIndex (state a))"
proof -
  have f: "\<And>fetch c. fetchOptionsFromAI rt apiKey fetch c =
      \<lparr>returned = [String [], String []],
       caught = Some ''Failed to fetch options: GEMINI_API_KEY is not configured. Please set REACT_APP_GEMINI_API_KEY in Netlify environment variables.. Please check your network or API key configuration.'',
       requests = []\<rparr>"
    using assms
    by (auto simp: fetchOptionsFromAI_def try_block_def failure_text_def missing_key_message_def)
  have "\<And>a n out. n < length (in_flight a) \<Longrightarrow>
            error (state (step rt apiKey a (Settle n out))) =
              ''Failed to fetch options: GEMINI_API_KEY is not configured. Please set REACT_APP_GEMINI_API_KEY in Netlify environment variables.. Please check your network or API key configuration.''
            \<and> history (state (step rt apiKey a (Settle n out))) = history (state a)
            \<and> historyIndex (state (step rt apiKey a (Settle n out))) = historyIndex (state a)"
    by (simp add: settle_def f Let_def element_def handleGenerateNew_resume_def)
  with f show ?thesis by simp
qed

theorem missing_credential_witness:
  "requests (fetchOptionsFromAI stub_runtime None (always (answer ''x'')) ''Animals'') = []
   \<and> caught (fetchOptionsFromAI stub_runtime None (always (answer ''x'')) ''Animals'') =
       Some ''Failed to fetch options: GEMINI_API_KEY is not configured. Please set REACT_APP_GEMINI_API_KEY in Netlify environment variables.. Please check your network or API key configuration.''
   \<and> returned (fetchOptionsFromAI stub_runtime None (always (answer ''x'')) ''Animals'')
       = [String [], String []]
   \<and> requests (fetchOptionsFromAI stub_runtime (Some []) (always (answer ''x'')) ''Animals'') = []
   \<and> error (state (step stub_runtime None mount (Settle 0 (answer ''x'')))) =
       ''Failed to fetch options: GEMINI_API_KEY is not configured. Please set REACT_APP_GEMINI_API_KEY in Netlify environment variables.. Please check your network or API key configuration.''"
proof -
  have h1: "(None :: string option) = None \<or> (None :: string option) = Some []" by simp
  have h2: "Some ([] :: string) = None \<or> Some ([] :: string) = Some []" by simp
  have n: "0 < length (in_flight mount)"
    by (simp add: mount_def run_effect_def regeneration_effect_def history_at_def
          initial_session_def handleGenerateNew_call_def)
  show ?thesis
    using n missing_credential [OF h1, of stub_runtime "always (answer ''x'')" "''Animals''"]
      missing_credential [OF h2, of stub_runtime "always (answer ''x'')" "''Animals''"]
    by blast
qed

section \<open>The client never throws\<close>

text \<open>
  Claim C9. On every path the client returns an array of exactly two strings: whatever
  the \<^verbatim>\<open>try\<close> block throws is caught, reported, and answered with two empty strings, and
  what it returns is returned unchanged with no error reported.
\<close>

theorem client_total:
  "(\<exists>a b. returned (fetchOptionsFromAI rt apiKey fetch c) = [String a, String b])
   \<and> (\<forall>e. fst (try_block rt apiKey fetch c) = Inl e \<longrightarrow>
         returned (fetchOptionsFromAI rt apiKey fetch c) = [String [], String []]
         \<and> caught (fetchOptionsFromAI rt apiKey fetch c) = Some (failure_text e))
   \<and> (\<forall>xs. fst (try_block rt apiKey fetch c) = Inr xs \<longrightarrow>
         returned (fetchOptionsFromAI rt apiKey fetch c) = xs
         \<and> caught (fetchOptionsFromAI rt apiKey fetch c) = None)"
  using returned_two_strings [of rt apiKey fetch c] fetch_failure [of rt apiKey fetch c]
    fetch_success [of rt apiKey fetch c]
  by blast

theorem client_total_witness:
  \<open>fst (try_block stub_runtime None (always (answer ''["Tea","Coffee"]'')) ''Animals'')
     = Inl (Error missing_key_message)
   \<and> returned (fetchOptionsFromAI stub_runtime None
        (always (answer ''["Tea","Coffee"]'')) ''Animals'') = [String [], String []]
   \<and> fst (try_block stub_runtime (Some ''secret'') (always (Rejected (TypeError ''Failed to fetch'')))
        ''Animals'') = Inl (TypeError ''Failed to fetch'')
   \<and> returned (fetchOptionsFromAI stub_runtime (Some ''secret'')
        (always (Rejected (TypeError ''Failed to fetch''))) ''Animals'') = [String [], String []]
   \<and> fst (try_block stub_runtime (Some ''secret'')
        (always (Resolved \<lparr>ok = False, status = 500, json = Inr (Object [])\<rparr>)) ''Animals'')
     = Inl (Error ''HTTP error! Status: 500. Details: {}'')
   \<and> returned (fetchOptionsFromAI stub_runtime (Some ''secret'')
        (always (Resolved \<lparr>ok = False, status = 500, json = Inr (Object [])\<rparr>)) ''Animals'')
     = [String [], String []]
   \<and> fst (try_block stub_runtime (Some ''secret'')
        (always (Resolved \<lparr>ok = True, status = 200,
                            json = Inr (Object [(''candidates'', Array [])])\<rparr>)) ''Animals'')
     = Inl (Error empty_or_malformed_message)
   \<and> returned (fetchOptionsFromAI stub_runtime (Some ''secret'')
        (always (Resolved \<lparr>ok = True, status = 200,
                            json = Inr (Object [(''candidates'', Array [])])\<rparr>)) ''Animals'')
     = [String [], String []]
   \<and> fst (try_block stub_runtime (Some ''secret'') (always (answer ''["a","b","c"]'')) ''Animals'')
     = Inl (Error unexpected_format_message)
   \<and> returned (fetchOptionsFromAI stub_runtime (Some ''secret'')
        (always (answer ''["a","b","c"]'')) ''Animals'') = [String [], String []]
   \<and> fst (try_block stub_runtime (Some ''secret'') (always (answer ''not json'')) ''Animals'')
     = Inl (SyntaxError ''Unexpected token'')
   \<and> returned (fetchOptionsFromAI stub_runtime (Some ''secret'')
        (always (answer ''not json'')) ''Animals'') = [String [], String []]
   \<and> fst (try_block stub_runtime (Some ''secret'') (always (answer ''["Tea","Coffee"]'')) ''Animals'')
     = Inr [String ''Tea'', String ''Coffee'']
   \<and> returned (fetchOptionsFromAI stub_runtime (Some ''secret'')
        (always (answer ''["Tea","Coffee"]'')) ''Animals'') = [String ''Tea'', String ''Coffee'']\<close>
proof -
  have h1: \<open>fst (try_block stub_runtime None (always (answer ''["Tea","Coffee"]'')) ''Animals'')
     = Inl (Error missing_key_message)\<close>
    by (simp add: try_block_def)
  have h2: \<open>fst (try_block stub_runtime (Some ''secret'')
        (always (Rejected (TypeError ''Failed to fetch''))) ''Animals'')
      = Inl (TypeError ''Failed to fetch'')\<close>
    by (simp add: client_eval)
  have h3: \<open>fst (try_block stub_runtime (Some ''secret'')
        (always (Resolved \<lparr>ok = False, status = 500, json = Inr (Object [])\<rparr>)) ''Animals'')
     = Inl (Error ''HTTP error! Status: 500. Details: {}'')\<close>
    by (simp add: client_eval http_error_message_def)
  have h4: \<open>fst (try_block stub_runtime (Some ''secret'')
        (always (Resolved \<lparr>ok = True, status = 200,
                            json = Inr (Object [(''candidates'', Array [])])\<rparr>)) ''Animals'')
     = Inl (Error empty_or_malformed_message)\<close>
    by (simp add: client_eval envelope_ok_def)
  have h5: \<open>fst (try_block stub_runtime (Some ''secret'') (always (answer ''["a","b","c"]''))
        ''Animals'') = Inl (Error unexpected_format_message)\<close>
    by (simp add: client_eval)
  have h6: \<open>fst (try_block stub_runtime (Some ''secret'') (always (answer ''not json'')) ''Animals'')
     = Inl (SyntaxError ''Unexpected token'')\<close>
    by (simp add: client_eval)
  have h7: \<open>fst (try_block stub_runtime (Some ''secret'') (always (answer ''["Tea","Coffee"]''))
        ''Animals'') = Inr [String ''Tea'', String ''Coffee'']\<close>
    by (simp add: client_eval)
  show ?thesis
    using h1 h2 h3 h4 h5 h6 h7
      client_total [of stub_runtime None \<open>always (answer ''["Tea","Coffee"]'')\<close> "''Animals''"]
      client_total [of stub_runtime "Some ''secret''"
        "always (Rejected (TypeError ''Failed to fetch''))" "''Animals''"]
      client_total [of stub_runtime "Some ''secret''"
        "always (Resolved \<lparr>ok = False, status = 500, json = Inr (Object [])\<rparr>)" "''Animals''"]
      client_total [of stub_runtime "Some ''secret''"
        "always (Resolved \<lparr>ok = True, status = 200,
                            json = Inr (Object [(''candidates'', Array [])])\<rparr>)" "''Animals''"]
      client_total [of stub_runtime "Some ''secret''" \<open>always (answer ''["a","b","c"]'')\<close>
        "''Animals''"]
      client_total [of stub_runtime "Some ''secret''" "always (answer ''not json'')" "''Animals''"]
      client_total [of stub_runtime "Some ''secret''" \<open>always (answer ''["Tea","Coffee"]'')\<close>
        "''Animals''"]
    by simp
qed

section \<open>A well-formed answer of two empty strings\<close>




end
